theory Spec2Isabelle
  imports Main
begin

section \<open>Python values used by the instrumentator\<close>

text \<open>
  The model follows \<^verbatim>\<open>cakefuzzer/instrumentation/instrumentator.py\<close>. Every
  exception the source can raise is a value of \<open>error\<close>.
\<close>

datatype error = ValueError | IndexError | KeyError | AttributeError

subsection \<open>\<^verbatim>\<open>str.split\<close>, \<^verbatim>\<open>int\<close> and \<^verbatim>\<open>str\<close> on integers\<close>

text \<open>
  A Python \<^verbatim>\<open>str\<close> whose characters are read as Unicode characters (the
  detected version, which goes through \<^verbatim>\<open>int\<close>) is the list of its code points.
  The names of directories and files, the environment and the printed lines are
  \<open>string\<close>s.
\<close>

type_synonym unicode = "nat list"

definition code_points :: "string \<Rightarrow> unicode" where
  "code_points s = map of_char s"

text \<open>\<^verbatim>\<open>s.split(c)\<close> for a one-character separator: never the empty list.\<close>

fun split_on :: "'a \<Rightarrow> 'a list \<Rightarrow> 'a list list" where
  "split_on c [] = [[]]"
| "split_on c (x # xs) =
     (if x = c then [] # split_on c xs
      else (case split_on c xs of [] \<Rightarrow> [[x]] | w # ws \<Rightarrow> (x # w) # ws))"

text \<open>
  The characters \<^verbatim>\<open>int\<close> reads as decimal digits are the Unicode decimal digits
  (Unicode 14, the table of CPython 3.11): 66 runs of ten consecutive code
  points, each run listed by its digit zero.
\<close>

definition decimal_zeros :: "nat list" where
  "decimal_zeros =
     [48, 1632, 1776, 1984, 2406, 2534, 2662, 2790, 2918, 3046,
      3174, 3302, 3430, 3558, 3664, 3792, 3872, 4160, 4240, 6112,
      6160, 6470, 6608, 6784, 6800, 6992, 7088, 7232, 7248, 42528,
      43216, 43264, 43472, 43504, 43600, 44016, 65296, 66720, 68912, 69734,
      69872, 69942, 70096, 70384, 70736, 70864, 71248, 71360, 71472, 71904,
      72016, 72784, 73040, 73120, 92768, 92864, 93008, 120782, 120792, 120802,
      120812, 120822, 123200, 123632, 125264, 130032]"

definition decimal_value :: "nat \<Rightarrow> nat option" where
  "decimal_value c =
     (case filter (\<lambda>z. z \<le> c \<and> c < z + 10) decimal_zeros of
        [] \<Rightarrow> None
      | z # _ \<Rightarrow> Some (c - z))"

text \<open>
  The white space \<^verbatim>\<open>int\<close> strips from both ends: tab to carriage return and the
  space, and the Unicode spaces U+0085, U+00A0, U+1680, U+2000 to U+200A, U+2028,
  U+2029, U+202F, U+205F and U+3000.
\<close>

definition is_space :: "nat \<Rightarrow> bool" where
  "is_space c =
     (c \<in> set [9, 10, 11, 12, 13, 32, 133, 160, 5760, 8192,
               8193, 8194, 8195, 8196, 8197, 8198, 8199, 8200, 8201, 8202,
               8232, 8233, 8239, 8287, 12288])"

definition strip :: "unicode \<Rightarrow> unicode" where
  "strip s = rev (dropWhile is_space (rev (dropWhile is_space s)))"

text \<open>
  The digits of an integer literal as \<^verbatim>\<open>int()\<close> reads them: decimal digits, with
  single underscores (code point 95) allowed between two digits. \<open>prev\<close> says
  that the character just read was a digit.
\<close>

fun digits_value :: "unicode \<Rightarrow> nat \<Rightarrow> bool \<Rightarrow> nat option" where
  "digits_value [] acc prev = (if prev then Some acc else None)"
| "digits_value (c # cs) acc prev =
     (case decimal_value c of
        Some v \<Rightarrow> digits_value cs (10 * acc + v) True
      | None \<Rightarrow> if c = 95 \<and> prev then digits_value cs acc False else None)"

text \<open>The default of \<^verbatim>\<open>sys.get_int_max_str_digits()\<close>: \<^verbatim>\<open>int\<close> refuses a literal
  with more digits.\<close>

definition max_str_digits :: nat where
  "max_str_digits = 4300"

text \<open>
  \<^verbatim>\<open>int(s)\<close>: surrounding white space, an optional sign (\<^verbatim>\<open>-\<close> is code point
  45, \<^verbatim>\<open>+\<close> is 43), then the digits, at most \<open>max_str_digits\<close> of them; \<open>None\<close>
  is the \<^verbatim>\<open>ValueError\<close>.
\<close>

definition py_int :: "unicode \<Rightarrow> int option" where
  "py_int s =
     (case strip s of
        [] \<Rightarrow> None
      | c # cs \<Rightarrow>
          (let body = (if c = 45 \<or> c = 43 then cs else c # cs)
           in if max_str_digits < length (filter (\<lambda>x. decimal_value x \<noteq> None) body) then None
              else map_option (\<lambda>n. if c = 45 then - int n else int n) (digits_value body 0 False)))"

text \<open>The character of a decimal digit \<open>d < 10\<close>.\<close>

definition digit_char :: "nat \<Rightarrow> char" where
  "digit_char d = ''0123456789'' ! d"

fun str_nat :: "nat \<Rightarrow> string" where
  "str_nat n = (if n < 10 then [digit_char n] else str_nat (n div 10) @ [digit_char (n mod 10)])"

declare str_nat.simps [simp del]

text \<open>\<^verbatim>\<open>str(i)\<close> for an integer.\<close>

definition str_int :: "int \<Rightarrow> string" where
  "str_int i = (if i < 0 then CHR ''-'' # str_nat (nat (- i)) else str_nat (nat i))"

subsection \<open>\<^verbatim>\<open>pathlib\<close> paths\<close>

text \<open>
  A path is the tuple of its \<^verbatim>\<open>parts\<close>: \<^verbatim>\<open>Path("/srv/app").parts\<close> is
  \<open>[''/'', ''srv'', ''app'']\<close>, a relative path has no leading \<open>''/''\<close>, and
  \<^verbatim>\<open>Path(".")\<close> is \<open>[]\<close>.
\<close>

type_synonym path = "string list"

definition is_absolute :: "path \<Rightarrow> bool" where
  "is_absolute p = (case p of [] \<Rightarrow> False | r # _ \<Rightarrow> r = ''/'')"

text \<open>\<^verbatim>\<open>p / q\<close>: an absolute right operand replaces the left one.\<close>

definition joinpath :: "path \<Rightarrow> path \<Rightarrow> path" where
  "joinpath p q = (if is_absolute q then q else p @ q)"

text \<open>
  The parts of a string operand of \<^verbatim>\<open>/\<close> that holds no separator (a directory name,
  a stem): the empty string and \<^verbatim>\<open>"."\<close> contribute no part.
\<close>

definition segment :: "string \<Rightarrow> path" where
  "segment s = (if s = [] \<or> s = ''.'' then [] else [s])"

definition name :: "path \<Rightarrow> string" where
  "name p = (if p = [] \<or> p = [''/''] then [] else last p)"

definition parent :: "path \<Rightarrow> path" where
  "parent p = (if p = [] \<or> p = [''/''] then p else butlast p)"

text \<open>\<^verbatim>\<open>s.rfind(c)\<close>: the index of the last occurrence, or \<open>-1\<close>.\<close>

definition rfind :: "char \<Rightarrow> string \<Rightarrow> int" where
  "rfind c s =
     (if c \<in> set s then int (length s) - 1 - int (length (takeWhile (\<lambda>x. x \<noteq> c) (rev s)))
      else - 1)"

text \<open>
  \<^verbatim>\<open>PurePath.suffix\<close> and \<^verbatim>\<open>PurePath.stem\<close> (Python 3.8 to 3.13): the suffix
  starts at the last dot of the name, unless that dot is the first or the last
  character of the name.
\<close>

definition suffix_of :: "path \<Rightarrow> string" where
  "suffix_of p =
     (let n = name p; i = rfind CHR ''.'' n
      in if 0 < i \<and> i < int (length n) - 1 then drop (nat i) n else [])"

definition stem :: "path \<Rightarrow> string" where
  "stem p =
     (let n = name p; i = rfind CHR ''.'' n
      in if 0 < i \<and> i < int (length n) - 1 then take (nat i) n else n)"

text \<open>\<^verbatim>\<open>p.relative_to(d)\<close>: \<open>None\<close> is the \<^verbatim>\<open>ValueError\<close> raised when \<open>d\<close> is
  not a prefix of \<open>p\<close>.\<close>

definition relative_to :: "path \<Rightarrow> path \<Rightarrow> path option" where
  "relative_to p d = (if take (length d) p = d then Some (drop (length d) p) else None)"

text \<open>\<^verbatim>\<open>sep.join(xs)\<close>.\<close>

fun join_with :: "string \<Rightarrow> string list \<Rightarrow> string" where
  "join_with sep [] = []"
| "join_with sep [x] = x"
| "join_with sep (x # y # ys) = x @ sep @ join_with sep (y # ys)"

text \<open>\<^verbatim>\<open>str(p)\<close> for a path.\<close>

definition str_path :: "path \<Rightarrow> string" where
  "str_path p =
     (case p of
        [] \<Rightarrow> ''.''
      | r # rest \<Rightarrow> if r = ''/'' then CHR ''/'' # join_with ''/'' rest else join_with ''/'' p)"

definition endswith :: "string \<Rightarrow> string \<Rightarrow> bool" where
  "endswith s suf = (length suf \<le> length s \<and> drop (length s - length suf) s = suf)"

text \<open>
  \<^verbatim>\<open>d.rglob("*" + suf)\<close> over the entries \<open>es\<close> that exist on disk, in the order
  the walk yields them: the entries strictly below \<open>d\<close> whose name ends with
  \<open>suf\<close>. A directory that does not exist has no entry below it, and the
  generator yields nothing.
\<close>

definition rglob :: "path list \<Rightarrow> path \<Rightarrow> string \<Rightarrow> path list" where
  "rglob es d suf =
     filter (\<lambda>f. length d < length f \<and> take (length d) f = d \<and> endswith (last f) suf) es"


section \<open>Data model\<close>

text \<open>
  The operations are values. A patch and a copy are as the source constructs
  them, \<^verbatim>\<open>PatchInstrumentation(patch=..., original=...)\<close> and
  \<^verbatim>\<open>CopyInstrumentation(src=..., dst=...)\<close>; any other instance of the base class
  \<^verbatim>\<open>Instrumentation\<close> (a declared override, a declared annotation removal) is
  known by its description only.
\<close>

datatype instrumentation =
    PatchInstrumentation (patch: path) (original: path)
  | CopyInstrumentation (src: path) (dst: path)
  | Instrumentation string

text \<open>What \<^verbatim>\<open>AppInfo(webroot_dir)\<close> detects.\<close>

record app_info =
  cakephp_path :: path
  app_dir :: path
  cakephp_version :: unicode

record webroot_settings =
  instrumentation_ini :: path

text \<open>The fields of \<^verbatim>\<open>InstrumentationSettings\<close> that the instrumentator reads.\<close>

record instrumentation_settings =
  patch_dir :: path
  patches :: "instrumentation list"
  file_overrides :: "instrumentation list"
  remove_annotations :: "instrumentation list"
  copies :: "instrumentation list"

text \<open>
  The collaborators whose code is outside the instrumentator are parameters, over
  an arbitrary type \<open>'d\<close> of disk contents: target detection, the two settings
  loaders (the second reads the process environment and the file it is given),
  the enumeration of the entries on disk, and the three capabilities of a single
  operation. \<open>op_check\<close> only reads the disk; \<open>op_apply\<close> and \<open>op_revert\<close>
  return whether they succeeded and the disk they leave.
\<close>

record 'd externals =
  AppInfo :: "'d \<Rightarrow> path \<Rightarrow> app_info"
  load_webroot_settings :: "'d \<Rightarrow> webroot_settings"
  InstrumentationSettings :: "'d \<Rightarrow> (string \<rightharpoonup> string) \<Rightarrow> string \<Rightarrow> instrumentation_settings"
  entries :: "'d \<Rightarrow> path list"
  op_check :: "instrumentation \<Rightarrow> 'd \<Rightarrow> bool"
  op_apply :: "instrumentation \<Rightarrow> 'd \<Rightarrow> bool \<times> 'd"
  op_revert :: "instrumentation \<Rightarrow> 'd \<Rightarrow> bool \<times> 'd"

text \<open>
  What a run can observe, in order: an assignment to \<^verbatim>\<open>os.environ\<close>, a call of
  \<^verbatim>\<open>rglob\<close> (directory and pattern), a call of a batch helper (\<open>Check\<close> with its
  arguments and the two lists it returned, \<open>Apply\<close> and \<open>Revert\<close> with their
  arguments and the list they returned), a printed line.
\<close>

datatype event =
    SetEnv string string
  | Rglob path string
  | Check "instrumentation list" "instrumentation list" "instrumentation list"
  | Apply "instrumentation list" "instrumentation list"
  | Revert "instrumentation list" "instrumentation list"
  | Print string

text \<open>
  The state a method runs in: the two attributes of the \<^verbatim>\<open>Instrumentator\<close>
  object, the process environment, the disk and the events so far.
\<close>

record 'd state =
  webroot_dir :: path
  settings :: "instrumentation_settings option"
  environ :: "string \<rightharpoonup> string"
  disk :: 'd
  trace :: "event list"

type_synonym ('a, 'd) action = "'d state \<Rightarrow> (error + 'a) \<times> 'd state"

definition ret :: "'a \<Rightarrow> ('a, 'd) action" where
  "ret x st = (Inr x, st)"

definition raise :: "error \<Rightarrow> ('a, 'd) action" where
  "raise e st = (Inl e, st)"

text \<open>Sequencing: an exception ends the run and keeps the state reached.\<close>

definition seq :: "('a, 'd) action \<Rightarrow> ('a \<Rightarrow> ('b, 'd) action) \<Rightarrow> ('b, 'd) action" where
  "seq m f st = (case m st of (Inl e, st') \<Rightarrow> (Inl e, st') | (Inr x, st') \<Rightarrow> f x st')"

definition read :: "('d state \<Rightarrow> 'a) \<Rightarrow> ('a, 'd) action" where
  "read f st = (Inr (f st), st)"

definition lift :: "error + 'a \<Rightarrow> ('a, 'd) action" where
  "lift r st = (r, st)"

definition emit :: "event \<Rightarrow> (unit, 'd) action" where
  "emit e st = (Inr (), st\<lparr>trace := trace st @ [e]\<rparr>)"

text \<open>\<^verbatim>\<open>os.environ[k] = v\<close> and \<^verbatim>\<open>os.environ[k]\<close>.\<close>

definition setenv :: "string \<Rightarrow> string \<Rightarrow> (unit, 'd) action" where
  "setenv k v st = (Inr (), st\<lparr>environ := (environ st)(k \<mapsto> v), trace := trace st @ [SetEnv k v]\<rparr>)"

definition getenv :: "string \<Rightarrow> (string, 'd) action" where
  "getenv k st = (case environ st k of None \<Rightarrow> (Inl KeyError, st) | Some v \<Rightarrow> (Inr v, st))"

text \<open>\<^verbatim>\<open>self.settings\<close>, whose attributes cannot be read while it is \<^verbatim>\<open>None\<close>.\<close>

definition get_settings :: "(instrumentation_settings, 'd) action" where
  "get_settings st = (case settings st of None \<Rightarrow> (Inl AttributeError, st) | Some s \<Rightarrow> (Inr s, st))"

definition rglob_files :: "'d externals \<Rightarrow> path \<Rightarrow> string \<Rightarrow> (path list, 'd) action" where
  "rglob_files X d suf st =
     (Inr (rglob (entries X (disk st)) d suf), st\<lparr>trace := trace st @ [Rglob d (CHR ''*'' # suf)]\<rparr>)"

section \<open>Batch helpers\<close>

text \<open>
  Modelled from the spec: the batch helpers \<^verbatim>\<open>check\<close>, \<^verbatim>\<open>apply\<close> and \<^verbatim>\<open>revert\<close> that
  the instrumentator imports from \<^verbatim>\<open>cakefuzzer.instrumentation\<close> are not among the
  sources. As specified, \<^verbatim>\<open>check(*ops)\<close> returns the partition (applied,
  not applied) and mutates nothing; \<^verbatim>\<open>apply(*ops)\<close> and \<^verbatim>\<open>revert(*ops)\<close> run every
  operation they are given, skip the ones that fail, and return the ones that
  succeeded. The operations of one batch run here in the order of the list.
\<close>

definition check_batch ::
  "'d externals \<Rightarrow> instrumentation list \<Rightarrow> (instrumentation list \<times> instrumentation list, 'd) action" where
  "check_batch X ops st =
     (let applied = filter (\<lambda>i. op_check X i (disk st)) ops;
          unapplied = filter (\<lambda>i. \<not> op_check X i (disk st)) ops
      in (Inr (applied, unapplied), st\<lparr>trace := trace st @ [Check ops applied unapplied]\<rparr>))"

fun run_each ::
  "(instrumentation \<Rightarrow> 'd \<Rightarrow> bool \<times> 'd) \<Rightarrow> instrumentation list \<Rightarrow> 'd \<Rightarrow> instrumentation list \<times> 'd" where
  "run_each f [] d = ([], d)"
| "run_each f (i # ops) d =
     (case f i d of (ok, d') \<Rightarrow>
        (case run_each f ops d' of (succeeded, d'') \<Rightarrow>
           (if ok then i # succeeded else succeeded, d'')))"

definition apply_batch ::
  "'d externals \<Rightarrow> instrumentation list \<Rightarrow> (instrumentation list, 'd) action" where
  "apply_batch X ops st =
     (case run_each (op_apply X) ops (disk st) of (succeeded, d') \<Rightarrow>
        (Inr succeeded, st\<lparr>disk := d', trace := trace st @ [Apply ops succeeded]\<rparr>))"

definition revert_batch ::
  "'d externals \<Rightarrow> instrumentation list \<Rightarrow> (instrumentation list, 'd) action" where
  "revert_batch X ops st =
     (case run_each (op_revert X) ops (disk st) of (succeeded, d') \<Rightarrow>
        (Inr succeeded, st\<lparr>disk := d', trace := trace st @ [Revert ops succeeded]\<rparr>))"

section \<open>The instrumentator\<close>

subsection \<open>Loading\<close>

definition load_settings :: "'d externals \<Rightarrow> (unit, 'd) action" where
  "load_settings X =
     seq (read webroot_dir) (\<lambda>webroot.
     seq (read disk) (\<lambda>d.
       let info = AppInfo X d webroot;
           webroot_settings = load_webroot_settings X d
       in
       seq (setenv ''CAKEPHP_PATH'' (str_path (cakephp_path info))) (\<lambda>_.
       seq (setenv ''APP_DIR'' (str_path (app_dir info))) (\<lambda>_.
       seq (setenv ''WEBROOT_DIR'' (str_path webroot)) (\<lambda>_.
       seq (setenv ''INSTRUMENTATION_INI'' (str_path (instrumentation_ini webroot_settings))) (\<lambda>_.
       seq (getenv ''INSTRUMENTATION_INI'') (\<lambda>env_file.
       seq (read environ) (\<lambda>env.
         (\<lambda>st. (Inr (), st\<lparr>settings := Some (InstrumentationSettings X d env env_file)\<rparr>))))))))))"

definition load_settings_patches :: "(instrumentation list, 'd) action" where
  "load_settings_patches = seq get_settings (\<lambda>s. ret (patches s))"

definition load_settings_overrides :: "(instrumentation list, 'd) action" where
  "load_settings_overrides = seq get_settings (\<lambda>s. ret (file_overrides s))"

definition load_annotations_removal :: "(instrumentation list, 'd) action" where
  "load_annotations_removal = seq get_settings (\<lambda>s. ret (remove_annotations s))"

text \<open>
  The body of one \<^verbatim>\<open>for file in d.rglob("*.patch")\<close> loop, over the files the
  generator yields, appending to \<^verbatim>\<open>patches\<close>; \<open>live\<close> is the root the originals
  are resolved against.
\<close>

fun patch_loop :: "path \<Rightarrow> path \<Rightarrow> path list \<Rightarrow> instrumentation list \<Rightarrow> error + instrumentation list" where
  "patch_loop d live [] acc = Inr acc"
| "patch_loop d live (file # files) acc =
     (case relative_to file d of
        None \<Rightarrow> Inl ValueError
      | Some rel \<Rightarrow>
          (let orig = joinpath (parent rel) (segment (stem rel))
           in patch_loop d live files (acc @ [PatchInstrumentation file (joinpath live orig)])))"

definition load_cake_version_patches :: "'d externals \<Rightarrow> int \<Rightarrow> (instrumentation list, 'd) action" where
  "load_cake_version_patches X major_version =
     seq get_settings (\<lambda>s.
     seq (read webroot_dir) (\<lambda>webroot.
     seq (read disk) (\<lambda>d.
       let version_dir = joinpath (joinpath (patch_dir s) (segment ''cakephp'')) (segment (str_int major_version));
           app = joinpath version_dir (segment ''APP_DIR'');
           cake = joinpath version_dir (segment ''CAKEPHP_PATH'');
           web = joinpath version_dir (segment ''WEBROOT'');
           info = AppInfo X d webroot;
           cake_app_dir = app_dir info;
           cake_cakephp_path = cakephp_path info
       in
       seq (rglob_files X app ''.patch'') (\<lambda>files1.
       seq (lift (patch_loop app cake_app_dir files1 [])) (\<lambda>patches1.
       seq (rglob_files X cake ''.patch'') (\<lambda>files2.
       seq (lift (patch_loop cake cake_cakephp_path files2 patches1)) (\<lambda>patches2.
       seq (rglob_files X web ''.patch'') (\<lambda>files3.
       seq (lift (patch_loop web webroot files3 patches2)) ret))))))))"

fun copy_loop :: "path \<Rightarrow> path \<Rightarrow> path list \<Rightarrow> instrumentation list \<Rightarrow> error + instrumentation list" where
  "copy_loop d live [] acc = Inr acc"
| "copy_loop d live (file # files) acc =
     (case relative_to file d of
        None \<Rightarrow> Inl ValueError
      | Some rel \<Rightarrow> copy_loop d live files (acc @ [CopyInstrumentation file (joinpath live rel)]))"

definition load_cake_version_copies :: "'d externals \<Rightarrow> int \<Rightarrow> (instrumentation list, 'd) action" where
  "load_cake_version_copies X major_version =
     seq get_settings (\<lambda>s.
     seq (read webroot_dir) (\<lambda>webroot.
     seq (read disk) (\<lambda>d.
       let version_dir = joinpath (joinpath (patch_dir s) (segment ''cakephp'')) (segment (str_int major_version));
           app = joinpath version_dir (segment ''APP_DIR'');
           cake = joinpath version_dir (segment ''CAKEPHP_PATH'');
           web = joinpath version_dir (segment ''WEBROOT'');
           info = AppInfo X d webroot;
           cake_app_dir = app_dir info;
           cake_cakephp_path = cakephp_path info
       in
       seq (rglob_files X app ''.php'') (\<lambda>files1.
       seq (lift (copy_loop app cake_app_dir files1 [])) (\<lambda>copies1.
       seq (rglob_files X cake ''.php'') (\<lambda>files2.
       seq (lift (copy_loop cake cake_cakephp_path files2 copies1)) (\<lambda>copies2.
       seq (rglob_files X web ''.php'') (\<lambda>files3.
       seq (lift (copy_loop web webroot files3 copies2)) ret))))))))"

text \<open>\<^verbatim>\<open>int(version.split(".")[0])\<close>; the full stop is code point 46.\<close>

definition major_of :: "unicode \<Rightarrow> error + int" where
  "major_of version =
     (case split_on 46 version of
        [] \<Rightarrow> Inl IndexError
      | v # _ \<Rightarrow> (case py_int v of None \<Rightarrow> Inl ValueError | Some m \<Rightarrow> Inr m))"

type_synonym groups =
  "instrumentation list \<times> instrumentation list \<times> instrumentation list \<times> instrumentation list"

definition load_instrumentations :: "'d externals \<Rightarrow> (groups, 'd) action" where
  "load_instrumentations X =
     seq (load_settings X) (\<lambda>_.
     seq load_settings_patches (\<lambda>settings_patches.
     seq load_settings_overrides (\<lambda>settings_overrides.
     seq load_annotations_removal (\<lambda>annotations_removal.
     seq get_settings (\<lambda>s.
       let settings_copies = copies s in
     seq (read webroot_dir) (\<lambda>webroot.
     seq (read disk) (\<lambda>d.
       let version = cakephp_version (AppInfo X d webroot) in
     seq (lift (major_of version)) (\<lambda>major_version.
     seq (load_cake_version_patches X major_version) (\<lambda>cake_patches.
     seq (load_cake_version_copies X major_version) (\<lambda>cake_copies.
       ret (settings_overrides,
            settings_patches @ cake_patches,
            settings_copies @ cake_copies,
            annotations_removal)))))))))))"

subsection \<open>The three public methods\<close>

text \<open>\<^verbatim>\<open>print(label, n)\<close> writes the label, a space and the number.\<close>

definition print_count :: "string \<Rightarrow> nat \<Rightarrow> (unit, 'd) action" where
  "print_count label n = emit (Print (label @ '' '' @ str_nat n))"

definition Instrumentator_apply :: "'d externals \<Rightarrow> (unit, 'd) action" where
  "Instrumentator_apply X =
     seq (load_instrumentations X) (\<lambda>(overrides, patches, copies, annotation_removal).
     seq (check_batch X overrides) (\<lambda>(_, unapplied).
     seq (apply_batch X unapplied) (\<lambda>unapplied.
     seq (print_count ''Overrides Applied'' (length unapplied)) (\<lambda>_.
     seq (check_batch X patches) (\<lambda>(_, unapplied).
     seq (apply_batch X unapplied) (\<lambda>unapplied.
     seq (print_count ''Patches Applied'' (length unapplied)) (\<lambda>_.
     seq (check_batch X copies) (\<lambda>(_, unapplied).
     seq (apply_batch X unapplied) (\<lambda>unapplied.
     seq (print_count ''Copies Applied'' (length unapplied)) (\<lambda>_.
     seq (check_batch X annotation_removal) (\<lambda>(_, unapplied).
     seq (apply_batch X unapplied) (\<lambda>unapplied.
     print_count ''Annotations Removed'' (length unapplied)))))))))))))"

definition Instrumentator_revert :: "'d externals \<Rightarrow> (unit, 'd) action" where
  "Instrumentator_revert X =
     seq (load_instrumentations X) (\<lambda>(overrides, patches, copies, annotation_removal).
     seq (check_batch X annotation_removal) (\<lambda>(applied, _).
     seq (revert_batch X applied) (\<lambda>_.
     seq (print_count ''Annotations Reverted'' (length applied)) (\<lambda>_.
     seq (check_batch X overrides) (\<lambda>(applied, _).
     seq (revert_batch X applied) (\<lambda>_.
     seq (print_count ''Overrides Reverted'' (length applied)) (\<lambda>_.
     seq (check_batch X patches) (\<lambda>(applied, _).
     seq (revert_batch X applied) (\<lambda>_.
     seq (print_count ''Patches Reverted'' (length applied)) (\<lambda>_.
     seq (check_batch X copies) (\<lambda>(applied, _).
     seq (revert_batch X applied) (\<lambda>_.
     print_count ''Copies Reverted'' (length applied)))))))))))))"



section \<open>Closed forms of the runs\<close>

text \<open>
  The definitions of this section name what a run computes, so that the theorems
  below can state it; each is related to the model above by a lemma.
\<close>

text \<open>The local \<^verbatim>\<open>version_dir\<close> of the two resolver methods.\<close>

definition version_dir :: "instrumentation_settings \<Rightarrow> int \<Rightarrow> path" where
  "version_dir s m = joinpath (joinpath (patch_dir s) (segment ''cakephp'')) (segment (str_int m))"

text \<open>The operation that one pass of a loop body appends for the file \<open>f\<close> found
  below \<open>d\<close>.\<close>

definition patch_for :: "path \<Rightarrow> path \<Rightarrow> path \<Rightarrow> instrumentation" where
  "patch_for d live f =
     PatchInstrumentation f
       (joinpath live (joinpath (parent (drop (length d) f)) (segment (stem (drop (length d) f)))))"

definition copy_for :: "path \<Rightarrow> path \<Rightarrow> path \<Rightarrow> instrumentation" where
  "copy_for d live f = CopyInstrumentation f (joinpath live (drop (length d) f))"

text \<open>The operations of the three loops, in the order the loops run.\<close>

definition found ::
  "(path \<Rightarrow> path \<Rightarrow> path \<Rightarrow> instrumentation) \<Rightarrow> string \<Rightarrow> path list \<Rightarrow> path \<Rightarrow> path \<Rightarrow> path \<Rightarrow> path \<Rightarrow> instrumentation list" where
  "found mk suf es vd live_app live_cake live_web =
     map (mk (joinpath vd (segment ''APP_DIR'')) live_app) (rglob es (joinpath vd (segment ''APP_DIR'')) suf) @
     map (mk (joinpath vd (segment ''CAKEPHP_PATH'')) live_cake) (rglob es (joinpath vd (segment ''CAKEPHP_PATH'')) suf) @
     map (mk (joinpath vd (segment ''WEBROOT'')) live_web) (rglob es (joinpath vd (segment ''WEBROOT'')) suf)"

text \<open>The three \<^verbatim>\<open>rglob\<close> calls of one resolver method.\<close>

definition rglob_events :: "path \<Rightarrow> string \<Rightarrow> event list" where
  "rglob_events vd suf =
     [Rglob (joinpath vd (segment ''APP_DIR'')) (CHR ''*'' # suf),
      Rglob (joinpath vd (segment ''CAKEPHP_PATH'')) (CHR ''*'' # suf),
      Rglob (joinpath vd (segment ''WEBROOT'')) (CHR ''*'' # suf)]"

text \<open>The environment, the events, the settings and the state that
  \<^verbatim>\<open>_load_settings\<close> leaves.\<close>

definition env_loaded :: "'d externals \<Rightarrow> 'd state \<Rightarrow> (string \<rightharpoonup> string)" where
  "env_loaded X st =
     (environ st)(''CAKEPHP_PATH'' \<mapsto> str_path (cakephp_path (AppInfo X (disk st) (webroot_dir st))),
                  ''APP_DIR'' \<mapsto> str_path (app_dir (AppInfo X (disk st) (webroot_dir st))),
                  ''WEBROOT_DIR'' \<mapsto> str_path (webroot_dir st),
                  ''INSTRUMENTATION_INI'' \<mapsto> str_path (instrumentation_ini (load_webroot_settings X (disk st))))"

definition env_events :: "'d externals \<Rightarrow> 'd state \<Rightarrow> event list" where
  "env_events X st =
     [SetEnv ''CAKEPHP_PATH'' (str_path (cakephp_path (AppInfo X (disk st) (webroot_dir st)))),
      SetEnv ''APP_DIR'' (str_path (app_dir (AppInfo X (disk st) (webroot_dir st)))),
      SetEnv ''WEBROOT_DIR'' (str_path (webroot_dir st)),
      SetEnv ''INSTRUMENTATION_INI'' (str_path (instrumentation_ini (load_webroot_settings X (disk st))))]"

definition settings_loaded :: "'d externals \<Rightarrow> 'd state \<Rightarrow> instrumentation_settings" where
  "settings_loaded X st =
     InstrumentationSettings X (disk st) (env_loaded X st)
       (str_path (instrumentation_ini (load_webroot_settings X (disk st))))"

definition loaded :: "'d externals \<Rightarrow> 'd state \<Rightarrow> 'd state" where
  "loaded X st = st\<lparr>settings := Some (settings_loaded X st), environ := env_loaded X st,
                     trace := trace st @ env_events X st\<rparr>"

text \<open>The four groups and the state that \<^verbatim>\<open>_load_instrumentations\<close> leaves when
  the major version is \<open>m\<close>.\<close>

definition groups_loaded :: "'d externals \<Rightarrow> 'd state \<Rightarrow> int \<Rightarrow> groups" where
  "groups_loaded X st m =
     (let s = settings_loaded X st; info = AppInfo X (disk st) (webroot_dir st)
      in (file_overrides s,
          patches s @ found patch_for ''.patch'' (entries X (disk st)) (version_dir s m)
                        (app_dir info) (cakephp_path info) (webroot_dir st),
          copies s @ found copy_for ''.php'' (entries X (disk st)) (version_dir s m)
                        (app_dir info) (cakephp_path info) (webroot_dir st),
          remove_annotations s))"

definition resolved :: "'d externals \<Rightarrow> 'd state \<Rightarrow> int \<Rightarrow> 'd state" where
  "resolved X st m =
     st\<lparr>settings := Some (settings_loaded X st), environ := env_loaded X st,
        trace := trace st @ env_events X st
                 @ rglob_events (version_dir (settings_loaded X st) m) ''.patch''
                 @ rglob_events (version_dir (settings_loaded X st) m) ''.php''\<rparr>"

text \<open>The two lists a \<^verbatim>\<open>check\<close> of \<open>ops\<close> returns on the disk \<open>d\<close>.\<close>

definition unapplied_of :: "'d externals \<Rightarrow> instrumentation list \<Rightarrow> 'd \<Rightarrow> instrumentation list" where
  "unapplied_of X ops d = filter (\<lambda>i. \<not> op_check X i d) ops"

definition applied_of :: "'d externals \<Rightarrow> instrumentation list \<Rightarrow> 'd \<Rightarrow> instrumentation list" where
  "applied_of X ops d = filter (\<lambda>i. op_check X i d) ops"

text \<open>The events and the disk that the three statements for one group leave, in
  \<^verbatim>\<open>apply\<close> and in \<^verbatim>\<open>revert\<close>.\<close>

definition apply_group_events :: "'d externals \<Rightarrow> string \<Rightarrow> instrumentation list \<Rightarrow> 'd \<Rightarrow> event list" where
  "apply_group_events X label ops d =
     [Check ops (applied_of X ops d) (unapplied_of X ops d),
      Apply (unapplied_of X ops d) (fst (run_each (op_apply X) (unapplied_of X ops d) d)),
      Print (label @ '' '' @ str_nat (length (fst (run_each (op_apply X) (unapplied_of X ops d) d))))]"

definition apply_group_disk :: "'d externals \<Rightarrow> instrumentation list \<Rightarrow> 'd \<Rightarrow> 'd" where
  "apply_group_disk X ops d = snd (run_each (op_apply X) (unapplied_of X ops d) d)"

definition revert_group_events :: "'d externals \<Rightarrow> string \<Rightarrow> instrumentation list \<Rightarrow> 'd \<Rightarrow> event list" where
  "revert_group_events X label ops d =
     [Check ops (applied_of X ops d) (unapplied_of X ops d),
      Revert (applied_of X ops d) (fst (run_each (op_revert X) (applied_of X ops d) d)),
      Print (label @ '' '' @ str_nat (length (applied_of X ops d)))]"

definition revert_group_disk :: "'d externals \<Rightarrow> instrumentation list \<Rightarrow> 'd \<Rightarrow> 'd" where
  "revert_group_disk X ops d = snd (run_each (op_revert X) (applied_of X ops d) d)"

text \<open>The events and the disk of a whole run over the four groups \<open>g\<close>.\<close>

definition apply_run :: "'d externals \<Rightarrow> groups \<Rightarrow> 'd \<Rightarrow> event list \<times> 'd" where
  "apply_run X g d0 =
     (case g of (ov, pa, co, an) \<Rightarrow>
        let d1 = apply_group_disk X ov d0;
            d2 = apply_group_disk X pa d1;
            d3 = apply_group_disk X co d2;
            d4 = apply_group_disk X an d3
        in (apply_group_events X ''Overrides Applied'' ov d0
            @ apply_group_events X ''Patches Applied'' pa d1
            @ apply_group_events X ''Copies Applied'' co d2
            @ apply_group_events X ''Annotations Removed'' an d3, d4))"

definition revert_run :: "'d externals \<Rightarrow> groups \<Rightarrow> 'd \<Rightarrow> event list \<times> 'd" where
  "revert_run X g d0 =
     (case g of (ov, pa, co, an) \<Rightarrow>
        let d1 = revert_group_disk X an d0;
            d2 = revert_group_disk X ov d1;
            d3 = revert_group_disk X pa d2;
            d4 = revert_group_disk X co d3
        in (revert_group_events X ''Annotations Reverted'' an d0
            @ revert_group_events X ''Overrides Reverted'' ov d1
            @ revert_group_events X ''Patches Reverted'' pa d2
            @ revert_group_events X ''Copies Reverted'' co d3, d4))"


section \<open>Reading a trace\<close>

text \<open>The groups handed to \<^verbatim>\<open>check\<close>, in the order of the calls.\<close>

fun checked_groups :: "event list \<Rightarrow> instrumentation list list" where
  "checked_groups [] = []"
| "checked_groups (Check ops _ _ # es) = ops # checked_groups es"
| "checked_groups (_ # es) = checked_groups es"

text \<open>The calls of the three batch helpers, in order, each with its arguments and
  what it returned.\<close>

fun calls :: "event list \<Rightarrow> event list" where
  "calls [] = []"
| "calls (Check ops applied unapplied # es) = Check ops applied unapplied # calls es"
| "calls (Apply ops succeeded # es) = Apply ops succeeded # calls es"
| "calls (Revert ops succeeded # es) = Revert ops succeeded # calls es"
| "calls (_ # es) = calls es"

text \<open>The lines printed, in order.\<close>

fun printed :: "event list \<Rightarrow> string list" where
  "printed [] = []"
| "printed (Print s # es) = s # printed es"
| "printed (_ # es) = printed es"

text \<open>
  A mutation is allowed directly after the \<^verbatim>\<open>check\<close> whose answer it takes:
  \<^verbatim>\<open>apply\<close> with exactly the list reported not applied, none of it reported
  applied; \<^verbatim>\<open>revert\<close> with exactly the list reported applied, none of it
  reported not applied. \<open>prev\<close> is the event before.
\<close>

definition allowed :: "event option \<Rightarrow> event \<Rightarrow> bool" where
  "allowed prev e =
     (case e of
        Apply ops _ \<Rightarrow>
          (case prev of Some (Check _ applied unapplied) \<Rightarrow> ops = unapplied \<and> set ops \<inter> set applied = {}
           | _ \<Rightarrow> False)
      | Revert ops _ \<Rightarrow>
          (case prev of Some (Check _ applied unapplied) \<Rightarrow> ops = applied \<and> set ops \<inter> set unapplied = {}
           | _ \<Rightarrow> False)
      | _ \<Rightarrow> True)"

fun gated :: "event option \<Rightarrow> event list \<Rightarrow> bool" where
  "gated prev [] = True"
| "gated prev (e # es) = (allowed prev e \<and> gated (Some e) es)"

section \<open>An example installation\<close>

text \<open>
  A CakePHP 4.2.1 application under \<^verbatim>\<open>/srv\<close> with resources under \<^verbatim>\<open>/res\<close>.
  The disk is the list of its entries. An operation is applied when its marker
  entry exists: the destination of a copy, a \<^verbatim>\<open>patched\<close> entry beside a patched
  file, an entry under \<^verbatim>\<open>/srv/marks\<close> otherwise. Operations whose marker is in
  \<open>readonly\<close> fail and leave the disk as it is.
\<close>

definition demo_info :: app_info where
  "demo_info = \<lparr>cakephp_path = [''/'', ''srv'', ''cake''], app_dir = [''/'', ''srv'', ''app''],
                 cakephp_version = code_points ''4.2.1''\<rparr>"

definition demo_settings :: instrumentation_settings where
  "demo_settings =
     \<lparr>patch_dir = [''/'', ''res''],
      patches = [PatchInstrumentation [''/'', ''res'', ''fix.patch''] [''/'', ''srv'', ''app'', ''index.php'']],
      file_overrides = [Instrumentation ''override''],
      remove_annotations = [Instrumentation ''annotations''],
      copies = [CopyInstrumentation [''/'', ''res'', ''stub.php''] [''/'', ''srv'', ''web'', ''stub.php'']]\<rparr>"

fun marker :: "instrumentation \<Rightarrow> path" where
  "marker (PatchInstrumentation p t) = t @ [''patched'']"
| "marker (CopyInstrumentation s t) = t"
| "marker (Instrumentation n) = [''/'', ''srv'', ''marks'', n]"

definition demo :: "path list \<Rightarrow> path list externals" where
  "demo readonly =
     \<lparr>AppInfo = (\<lambda>d w. demo_info),
      load_webroot_settings = (\<lambda>d. \<lparr>instrumentation_ini = [''/'', ''srv'', ''web'', ''fuzz.ini'']\<rparr>),
      InstrumentationSettings = (\<lambda>d env f. demo_settings),
      entries = (\<lambda>d. d),
      op_check = (\<lambda>i d. marker i \<in> set d),
      op_apply = (\<lambda>i d. if marker i \<in> set readonly then (False, d) else (True, marker i # d)),
      op_revert = (\<lambda>i d. if marker i \<in> set readonly then (False, d) else (True, removeAll (marker i) d))\<rparr>"

definition start :: "path list \<Rightarrow> path list state" where
  "start d = \<lparr>webroot_dir = [''/'', ''srv'', ''web''], settings = None, environ = Map.empty,
              disk = d, trace = []\<rparr>"


text \<open>Two disks of the example: one where the override and the copy are applied and
  the patch and the annotation removal are not, and one where all four are.\<close>

definition half_done :: "path list" where
  "half_done = [[''/'', ''srv'', ''marks'', ''override''], [''/'', ''srv'', ''web'', ''stub.php'']]"

definition instrumented :: "path list" where
  "instrumented =
     [[''/'', ''srv'', ''marks'', ''annotations''],
      [''/'', ''srv'', ''web'', ''stub.php''],
      [''/'', ''srv'', ''app'', ''index.php'', ''patched''],
      [''/'', ''srv'', ''marks'', ''override'']]"

text \<open>Whether an event is a call of the batch \<^verbatim>\<open>apply\<close>, of the batch \<^verbatim>\<open>revert\<close>.\<close>

fun is_apply :: "event \<Rightarrow> bool" where
  "is_apply (Apply _ _) = True"
| "is_apply _ = False"

fun is_revert :: "event \<Rightarrow> bool" where
  "is_revert (Revert _ _) = True"
| "is_revert _ = False"

text \<open>The events a method adds to the trace it starts with.\<close>

definition added :: "'d state \<Rightarrow> 'd state \<Rightarrow> event list" where
  "added st st' = drop (length (trace st)) (trace st')"


text \<open>Where a path lies: \<open>f\<close> is \<open>d\<close> or lies under it, \<open>f\<close> lies under \<open>d\<close>, and
  nothing on the disk is \<open>d\<close> or lies under it (the directory \<open>d\<close> does not
  exist).\<close>

definition below :: "path \<Rightarrow> path \<Rightarrow> bool" where
  "below d f = (take (length d) f = d)"

definition strictly_below :: "path \<Rightarrow> path \<Rightarrow> bool" where
  "strictly_below d f = (length d < length f \<and> take (length d) f = d)"

definition missing :: "path list \<Rightarrow> path \<Rightarrow> bool" where
  "missing es d = (filter (below d) es = [])"

text \<open>The file an operation was made from, and the path it changes.\<close>

fun source :: "instrumentation \<Rightarrow> path" where
  "source (PatchInstrumentation p t) = p"
| "source (CopyInstrumentation s t) = s"
| "source (Instrumentation n) = []"

fun target :: "instrumentation \<Rightarrow> path" where
  "target (PatchInstrumentation p t) = t"
| "target (CopyInstrumentation s t) = t"
| "target (Instrumentation n) = []"

fun is_rglob :: "event \<Rightarrow> bool" where
  "is_rglob (Rglob _ _) = True"
| "is_rglob _ = False"

text \<open>
  Three more disks of the example: one with resources for version 4 under the
  three root subtrees, one with resources under \<^verbatim>\<open>APP_DIR\<close> only, and one with
  resources for version 3 only.
\<close>

definition resources :: "path list" where
  "resources =
     [[''/'', ''res'', ''cakephp'', ''4'', ''APP_DIR'', ''src'', ''View.php.patch''],
      [''/'', ''res'', ''cakephp'', ''4'', ''CAKEPHP_PATH'', ''Core.php''],
      [''/'', ''res'', ''cakephp'', ''4'', ''WEBROOT'', ''index.php.patch''],
      [''/'', ''res'', ''cakephp'', ''4'', ''WEBROOT'', ''probe.php'']]"

definition partial :: "path list" where
  "partial = [[''/'', ''res'', ''cakephp'', ''4'', ''APP_DIR'', ''src'', ''View.php.patch'']]"

definition legacy :: "path list" where
  "legacy =
     [[''/'', ''res'', ''cakephp'', ''3'', ''APP_DIR'', ''old.php.patch''],
      [''/'', ''res'', ''cakephp'', ''3'', ''WEBROOT'', ''old.php'']]"

section \<open>Lemmas\<close>

lemma load_settings_eq:
  "load_settings X st =
     (let info = AppInfo X (disk st) (webroot_dir st);
          ini = str_path (instrumentation_ini (load_webroot_settings X (disk st)));
          env = (environ st)(''CAKEPHP_PATH'' \<mapsto> str_path (cakephp_path info),
                             ''APP_DIR'' \<mapsto> str_path (app_dir info),
                             ''WEBROOT_DIR'' \<mapsto> str_path (webroot_dir st),
                             ''INSTRUMENTATION_INI'' \<mapsto> ini)
      in (Inr (), st\<lparr>settings := Some (InstrumentationSettings X (disk st) env ini),
                       environ := env,
                       trace := trace st @ [SetEnv ''CAKEPHP_PATH'' (str_path (cakephp_path info)),
                                            SetEnv ''APP_DIR'' (str_path (app_dir info)),
                                            SetEnv ''WEBROOT_DIR'' (str_path (webroot_dir st)),
                                            SetEnv ''INSTRUMENTATION_INI'' ini]\<rparr>))"
  by (simp add: load_settings_def seq_def read_def setenv_def getenv_def Let_def)

lemma patch_loop_eq:
  "\<forall>f \<in> set files. take (length d) f = d \<Longrightarrow>
   patch_loop d live files acc =
     Inr (acc @ map (\<lambda>f. PatchInstrumentation f
        (joinpath live (joinpath (parent (drop (length d) f)) (segment (stem (drop (length d) f)))))) files)"
  by (induction files arbitrary: acc) (simp_all add: relative_to_def)

lemma copy_loop_eq:
  "\<forall>f \<in> set files. take (length d) f = d \<Longrightarrow>
   copy_loop d live files acc =
     Inr (acc @ map (\<lambda>f. CopyInstrumentation f (joinpath live (drop (length d) f))) files)"
  by (induction files arbitrary: acc) (simp_all add: relative_to_def)

lemma rglob_prefix: "\<forall>f \<in> set (rglob es d suf). take (length d) f = d"
  by (simp add: rglob_def)

lemma load_cake_version_patches_eq:
  assumes "settings st = Some s"
  shows "load_cake_version_patches X m st =
     (Inr (found patch_for ''.patch'' (entries X (disk st)) (version_dir s m)
            (app_dir (AppInfo X (disk st) (webroot_dir st)))
            (cakephp_path (AppInfo X (disk st) (webroot_dir st)))
            (webroot_dir st)),
      st\<lparr>trace := trace st @ rglob_events (version_dir s m) ''.patch''\<rparr>)"
  using assms
  by (simp add: load_cake_version_patches_def seq_def read_def get_settings_def Let_def
      rglob_files_def lift_def ret_def patch_loop_eq [OF rglob_prefix] found_def version_dir_def
      rglob_events_def patch_for_def)

lemma load_cake_version_copies_eq:
  assumes "settings st = Some s"
  shows "load_cake_version_copies X m st =
     (Inr (found copy_for ''.php'' (entries X (disk st)) (version_dir s m)
            (app_dir (AppInfo X (disk st) (webroot_dir st)))
            (cakephp_path (AppInfo X (disk st) (webroot_dir st)))
            (webroot_dir st)),
      st\<lparr>trace := trace st @ rglob_events (version_dir s m) ''.php''\<rparr>)"
  using assms
  by (simp add: load_cake_version_copies_def seq_def read_def get_settings_def Let_def
      rglob_files_def lift_def ret_def copy_loop_eq [OF rglob_prefix] found_def version_dir_def
      rglob_events_def copy_for_def)

lemma load_settings_loaded: "load_settings X st = (Inr (), loaded X st)"
  by (simp add: load_settings_eq loaded_def settings_loaded_def env_loaded_def env_events_def Let_def)

lemma load_instrumentations_eq:
  "load_instrumentations X st =
     (case major_of (cakephp_version (AppInfo X (disk st) (webroot_dir st))) of
        Inl e \<Rightarrow> (Inl e, loaded X st)
      | Inr m \<Rightarrow> (Inr (groups_loaded X st m), resolved X st m))"
  unfolding load_instrumentations_def
  by (simp add: seq_def load_settings_loaded load_settings_patches_def
      load_settings_overrides_def load_annotations_removal_def get_settings_def ret_def
      read_def lift_def Let_def loaded_def load_cake_version_patches_eq
      load_cake_version_copies_eq groups_loaded_def resolved_def split: sum.split)

lemma apply_group_step:
  "seq (check_batch X ops) (\<lambda>(_, unapplied).
     seq (apply_batch X unapplied) (\<lambda>unapplied.
     seq (print_count label (length unapplied)) k)) st =
   k () (st\<lparr>disk := apply_group_disk X ops (disk st),
             trace := trace st @ apply_group_events X label ops (disk st)\<rparr>)"
  by (simp add: seq_def check_batch_def apply_batch_def print_count_def emit_def Let_def
      apply_group_events_def apply_group_disk_def unapplied_of_def applied_of_def split_beta)

lemma apply_group_last:
  "seq (check_batch X ops) (\<lambda>(_, unapplied).
     seq (apply_batch X unapplied) (\<lambda>unapplied.
     print_count label (length unapplied))) st =
   (Inr (), st\<lparr>disk := apply_group_disk X ops (disk st),
             trace := trace st @ apply_group_events X label ops (disk st)\<rparr>)"
  by (simp add: seq_def check_batch_def apply_batch_def print_count_def emit_def Let_def
      apply_group_events_def apply_group_disk_def unapplied_of_def applied_of_def split_beta)

lemma revert_group_step:
  "seq (check_batch X ops) (\<lambda>(applied, _).
     seq (revert_batch X applied) (\<lambda>_.
     seq (print_count label (length applied)) k)) st =
   k () (st\<lparr>disk := revert_group_disk X ops (disk st),
             trace := trace st @ revert_group_events X label ops (disk st)\<rparr>)"
  by (simp add: seq_def check_batch_def revert_batch_def print_count_def emit_def Let_def
      revert_group_events_def revert_group_disk_def unapplied_of_def applied_of_def split_beta)

lemma revert_group_last:
  "seq (check_batch X ops) (\<lambda>(applied, _).
     seq (revert_batch X applied) (\<lambda>_.
     print_count label (length applied))) st =
   (Inr (), st\<lparr>disk := revert_group_disk X ops (disk st),
             trace := trace st @ revert_group_events X label ops (disk st)\<rparr>)"
  by (simp add: seq_def check_batch_def revert_batch_def print_count_def emit_def Let_def
      revert_group_events_def revert_group_disk_def unapplied_of_def applied_of_def split_beta)

lemma Instrumentator_apply_eq:
  "Instrumentator_apply X st =
     (case load_instrumentations X st of
        (Inl e, st1) \<Rightarrow> (Inl e, st1)
      | (Inr g, st1) \<Rightarrow>
          (Inr (), st1\<lparr>disk := snd (apply_run X g (disk st1)),
                       trace := trace st1 @ fst (apply_run X g (disk st1))\<rparr>))"
  unfolding Instrumentator_apply_def
  apply (subst seq_def)
  apply (simp split: prod.split sum.split add: apply_group_step apply_group_last apply_run_def Let_def)
  done

lemma Instrumentator_revert_eq:
  "Instrumentator_revert X st =
     (case load_instrumentations X st of
        (Inl e, st1) \<Rightarrow> (Inl e, st1)
      | (Inr g, st1) \<Rightarrow>
          (Inr (), st1\<lparr>disk := snd (revert_run X g (disk st1)),
                       trace := trace st1 @ fst (revert_run X g (disk st1))\<rparr>))"
  unfolding Instrumentator_revert_def
  apply (subst seq_def)
  apply (simp split: prod.split sum.split add: revert_group_step revert_group_last revert_run_def Let_def)
  done


lemma checked_groups_append: "checked_groups (xs @ ys) = checked_groups xs @ checked_groups ys"
  by (induction xs rule: checked_groups.induct) simp_all

lemma printed_append: "printed (xs @ ys) = printed xs @ printed ys"
  by (induction xs rule: printed.induct) simp_all

lemma disk_resolved: "disk (resolved X st m) = disk st"
  by (simp add: resolved_def)

lemma trace_resolved:
  "trace (resolved X st m) = trace st @ env_events X st
     @ rglob_events (version_dir (settings_loaded X st) m) ''.patch''
     @ rglob_events (version_dir (settings_loaded X st) m) ''.php''"
  by (simp add: resolved_def)

lemma load_ok_cases:
  assumes "load_instrumentations X st = (Inr g, st1)"
  obtains m where "major_of (cakephp_version (AppInfo X (disk st) (webroot_dir st))) = Inr m"
    and "g = groups_loaded X st m" and "st1 = resolved X st m"
  using assms by (auto simp: load_instrumentations_eq split: sum.splits)

lemma str_int_4: "str_int 4 = ''4''"
  by (simp add: str_int_def str_nat.simps digit_char_def)

lemma code_points_demo: "code_points ''4.2.1'' = [52, 46, 50, 46, 49]"
  by (simp add: code_points_def)

lemma decimal_value_4: "decimal_value 52 = Some 4"
  by (simp add: decimal_value_def decimal_zeros_def)

lemma strip_4: "strip [52] = [52]"
  by (simp add: strip_def is_space_def)

lemma py_int_4: "py_int [52] = Some 4"
  by (simp add: py_int_def strip_4 decimal_value_4 max_str_digits_def)

lemma major_demo: "major_of (code_points ''4.2.1'') = Inr 4"
  by (simp add: major_of_def code_points_demo py_int_4)

lemma settings_loaded_demo: "settings_loaded (demo ro) st = demo_settings"
  by (simp add: settings_loaded_def demo_def)

lemma version_dir_demo: "version_dir demo_settings 4 = [''/'', ''res'', ''cakephp'', ''4'']"
  by (simp add: version_dir_def demo_settings_def joinpath_def segment_def is_absolute_def str_int_4)

lemma load_demo_empty:
  "load_instrumentations (demo ro) (start []) =
     (Inr ([Instrumentation ''override''],
           [PatchInstrumentation [''/'', ''res'', ''fix.patch''] [''/'', ''srv'', ''app'', ''index.php'']],
           [CopyInstrumentation [''/'', ''res'', ''stub.php''] [''/'', ''srv'', ''web'', ''stub.php'']],
           [Instrumentation ''annotations'']),
      resolved (demo ro) (start []) 4)"
  by (simp add: load_instrumentations_eq demo_def demo_info_def major_demo groups_loaded_def
      settings_loaded_def demo_settings_def Let_def found_def rglob_def start_def)

lemma checked_groups_apply_run:
  "checked_groups (fst (apply_run X (ov, pa, co, an) d)) = [ov, pa, co, an]"
  by (simp add: apply_run_def Let_def apply_group_events_def)

lemma checked_groups_revert_run:
  "checked_groups (fst (revert_run X (ov, pa, co, an) d)) = [an, ov, pa, co]"
  by (simp add: revert_run_def Let_def revert_group_events_def)

lemma checked_groups_resolved:
  "checked_groups (trace (resolved X st m)) = checked_groups (trace st)"
  by (simp add: trace_resolved checked_groups_append env_events_def rglob_events_def)

lemma trace_start: "trace (start d) = []"
  by (simp add: start_def)

lemma disk_start: "disk (start d) = d"
  by (simp add: start_def)

lemma calls_append: "calls (xs @ ys) = calls xs @ calls ys"
  by (induction xs rule: calls.induct) simp_all

lemma calls_resolved: "calls (trace (resolved X st m)) = calls (trace st)"
  by (simp add: trace_resolved calls_append env_events_def rglob_events_def)

lemma calls_apply_run:
  "calls (fst (apply_run X (ov, pa, co, an) d0)) =
     (let d1 = apply_group_disk X ov d0;
          d2 = apply_group_disk X pa d1;
          d3 = apply_group_disk X co d2
      in [Check ov (applied_of X ov d0) (unapplied_of X ov d0),
          Apply (unapplied_of X ov d0) (fst (run_each (op_apply X) (unapplied_of X ov d0) d0)),
          Check pa (applied_of X pa d1) (unapplied_of X pa d1),
          Apply (unapplied_of X pa d1) (fst (run_each (op_apply X) (unapplied_of X pa d1) d1)),
          Check co (applied_of X co d2) (unapplied_of X co d2),
          Apply (unapplied_of X co d2) (fst (run_each (op_apply X) (unapplied_of X co d2) d2)),
          Check an (applied_of X an d3) (unapplied_of X an d3),
          Apply (unapplied_of X an d3) (fst (run_each (op_apply X) (unapplied_of X an d3) d3))])"
  by (simp add: apply_run_def Let_def apply_group_events_def)

lemma calls_revert_run:
  "calls (fst (revert_run X (ov, pa, co, an) d0)) =
     (let d1 = revert_group_disk X an d0;
          d2 = revert_group_disk X ov d1;
          d3 = revert_group_disk X pa d2
      in [Check an (applied_of X an d0) (unapplied_of X an d0),
          Revert (applied_of X an d0) (fst (run_each (op_revert X) (applied_of X an d0) d0)),
          Check ov (applied_of X ov d1) (unapplied_of X ov d1),
          Revert (applied_of X ov d1) (fst (run_each (op_revert X) (applied_of X ov d1) d1)),
          Check pa (applied_of X pa d2) (unapplied_of X pa d2),
          Revert (applied_of X pa d2) (fst (run_each (op_revert X) (applied_of X pa d2) d2)),
          Check co (applied_of X co d3) (unapplied_of X co d3),
          Revert (applied_of X co d3) (fst (run_each (op_revert X) (applied_of X co d3) d3))])"
  by (simp add: revert_run_def Let_def revert_group_events_def)

lemma disk_apply_run:
  "snd (apply_run X (ov, pa, co, an) d0) =
     apply_group_disk X an (apply_group_disk X co (apply_group_disk X pa (apply_group_disk X ov d0)))"
  by (simp add: apply_run_def Let_def)

lemma disk_revert_run:
  "snd (revert_run X (ov, pa, co, an) d0) =
     revert_group_disk X co (revert_group_disk X pa (revert_group_disk X ov (revert_group_disk X an d0)))"
  by (simp add: revert_run_def Let_def)

lemma demo_checks:
  "op_check (demo ro) i d = (marker i \<in> set d)"
  "op_apply (demo ro) i d = (if marker i \<in> set ro then (False, d) else (True, marker i # d))"
  "op_revert (demo ro) i d = (if marker i \<in> set ro then (False, d) else (True, removeAll (marker i) d))"
  "entries (demo ro) d = d"
  by (simp_all add: demo_def)

lemma unapplied_of_single: "unapplied_of X [i] d = (if op_check X i d then [] else [i])"
  by (simp add: unapplied_of_def)

lemma applied_of_single: "applied_of X [i] d = (if op_check X i d then [i] else [])"
  by (simp add: applied_of_def)

lemma run_each_single: "run_each f [i] d = (if fst (f i d) then [i] else [], snd (f i d))"
  by (simp add: split_beta)

lemma take_prefix_shorter:
  assumes "take (length (vd @ [x])) f = vd @ [x]"
  shows "take (length vd) f = vd"
proof -
  have "take (length vd) (take (length (vd @ [x])) f) = take (length vd) (vd @ [x])"
    using assms by simp
  then show ?thesis by (simp add: min_def)
qed

lemma rglob_outside:
  assumes "\<forall>f \<in> set es. take (length vd) f \<noteq> vd"
  shows "rglob es (vd @ [x]) suf = []"
proof -
  have "take (length (vd @ [x])) f \<noteq> vd @ [x]" if "f \<in> set es" for f
  proof
    assume "take (length (vd @ [x])) f = vd @ [x]"
    then have "take (length vd) f = vd"
      by (rule take_prefix_shorter)
    moreover have "take (length vd) f \<noteq> vd"
      using assms that by (rule bspec)
    ultimately show False
      by (rule notE [rotated])
  qed
  then have "\<forall>f \<in> set es. \<not> (length (vd @ [x]) < length f \<and> take (length (vd @ [x])) f = vd @ [x]
      \<and> endswith (last f) suf)"
    by simp
  then show ?thesis
    unfolding rglob_def filter_empty_conv .
qed

lemma found_outside:
  assumes "\<forall>f \<in> set es. take (length vd) f \<noteq> vd"
  shows "found mk suf es vd a b c = []"
  using assms by (simp add: found_def joinpath_def segment_def is_absolute_def rglob_outside)

lemma load_demo:
  "load_instrumentations (demo ro) st = (Inr (groups_loaded (demo ro) st 4), resolved (demo ro) st 4)"
  by (simp add: load_instrumentations_eq demo_def demo_info_def major_demo)

lemma groups_demo:
  assumes "\<forall>f \<in> set (disk st). take (length (version_dir demo_settings 4)) f \<noteq> version_dir demo_settings 4"
  shows "groups_loaded (demo ro) st 4 =
     ([Instrumentation ''override''],
      [PatchInstrumentation [''/'', ''res'', ''fix.patch''] [''/'', ''srv'', ''app'', ''index.php'']],
      [CopyInstrumentation [''/'', ''res'', ''stub.php''] [''/'', ''srv'', ''web'', ''stub.php'']],
      [Instrumentation ''annotations''])"
  using assms
  by (simp add: groups_loaded_def settings_loaded_demo demo_checks found_outside Let_def)
    (simp add: demo_settings_def)

lemma half_done_outside:
  "\<forall>f \<in> set half_done. take (length (version_dir demo_settings 4)) f \<noteq> version_dir demo_settings 4"
  by (simp add: version_dir_demo half_done_def)

lemma instrumented_outside:
  "\<forall>f \<in> set instrumented. take (length (version_dir demo_settings 4)) f \<noteq> version_dir demo_settings 4"
  by (simp add: version_dir_demo instrumented_def)

lemma load_demo_half_done:
  "load_instrumentations (demo ro) (start half_done) =
     (Inr ([Instrumentation ''override''],
           [PatchInstrumentation [''/'', ''res'', ''fix.patch''] [''/'', ''srv'', ''app'', ''index.php'']],
           [CopyInstrumentation [''/'', ''res'', ''stub.php''] [''/'', ''srv'', ''web'', ''stub.php'']],
           [Instrumentation ''annotations'']),
      resolved (demo ro) (start half_done) 4)"
  by (simp add: load_demo groups_demo disk_start half_done_outside)

lemma unapplied_of_all_applied:
  "\<forall>i \<in> set ops. op_check X i d \<Longrightarrow> unapplied_of X ops d = []"
  by (simp add: unapplied_of_def)

lemma applied_of_all_applied:
  "\<forall>i \<in> set ops. op_check X i d \<Longrightarrow> applied_of X ops d = ops"
  by (simp add: applied_of_def)

lemma str_nat_0: "str_nat 0 = ''0''"
  by (simp add: str_nat.simps digit_char_def)

lemma str_nat_1: "str_nat (Suc 0) = ''1''"
  by (simp add: str_nat.simps digit_char_def)

lemma apply_group_noop:
  assumes "\<forall>i \<in> set ops. op_check X i d"
  shows "apply_group_disk X ops d = d"
    and "apply_group_events X label ops d = [Check ops ops [], Apply [] [], Print (label @ '' 0'')]"
  using assms
  by (simp_all add: apply_group_disk_def apply_group_events_def unapplied_of_all_applied
      applied_of_all_applied str_nat_0)

lemma printed_resolved: "printed (trace (resolved X st m)) = printed (trace st)"
  by (simp add: trace_resolved printed_append env_events_def rglob_events_def)

lemma apply_run_noop:
  assumes "\<forall>i \<in> set (ov @ pa @ co @ an). op_check X i d"
  shows "apply_run X (ov, pa, co, an) d =
     ([Check ov ov [], Apply [] [], Print ''Overrides Applied 0'',
       Check pa pa [], Apply [] [], Print ''Patches Applied 0'',
       Check co co [], Apply [] [], Print ''Copies Applied 0'',
       Check an an [], Apply [] [], Print ''Annotations Removed 0''], d)"
proof -
  have o: "\<forall>i \<in> set ov. op_check X i d" and p: "\<forall>i \<in> set pa. op_check X i d"
    and c: "\<forall>i \<in> set co. op_check X i d" and a: "\<forall>i \<in> set an. op_check X i d"
    using assms by auto
  show ?thesis
    by (simp add: apply_run_def Let_def apply_group_noop [OF o] apply_group_noop [OF p]
        apply_group_noop [OF c] apply_group_noop [OF a])
qed

lemma apply_demo_empty:
  "apply_run (demo []) ([Instrumentation ''override''],
           [PatchInstrumentation [''/'', ''res'', ''fix.patch''] [''/'', ''srv'', ''app'', ''index.php'']],
           [CopyInstrumentation [''/'', ''res'', ''stub.php''] [''/'', ''srv'', ''web'', ''stub.php'']],
           [Instrumentation ''annotations'']) [] =
     ([Check [Instrumentation ''override''] [] [Instrumentation ''override''],
       Apply [Instrumentation ''override''] [Instrumentation ''override''],
       Print ''Overrides Applied 1'',
       Check [PatchInstrumentation [''/'', ''res'', ''fix.patch''] [''/'', ''srv'', ''app'', ''index.php'']] []
         [PatchInstrumentation [''/'', ''res'', ''fix.patch''] [''/'', ''srv'', ''app'', ''index.php'']],
       Apply [PatchInstrumentation [''/'', ''res'', ''fix.patch''] [''/'', ''srv'', ''app'', ''index.php'']]
         [PatchInstrumentation [''/'', ''res'', ''fix.patch''] [''/'', ''srv'', ''app'', ''index.php'']],
       Print ''Patches Applied 1'',
       Check [CopyInstrumentation [''/'', ''res'', ''stub.php''] [''/'', ''srv'', ''web'', ''stub.php'']] []
         [CopyInstrumentation [''/'', ''res'', ''stub.php''] [''/'', ''srv'', ''web'', ''stub.php'']],
       Apply [CopyInstrumentation [''/'', ''res'', ''stub.php''] [''/'', ''srv'', ''web'', ''stub.php'']]
         [CopyInstrumentation [''/'', ''res'', ''stub.php''] [''/'', ''srv'', ''web'', ''stub.php'']],
       Print ''Copies Applied 1'',
       Check [Instrumentation ''annotations''] [] [Instrumentation ''annotations''],
       Apply [Instrumentation ''annotations''] [Instrumentation ''annotations''],
       Print ''Annotations Removed 1''], instrumented)"
  by (simp add: apply_run_def Let_def apply_group_events_def apply_group_disk_def
      unapplied_of_single applied_of_single demo_checks str_nat_1 instrumented_def)

lemma first_apply_demo:
  "Instrumentator_apply (demo []) (start []) =
     (Inr (), (resolved (demo []) (start []) 4)
        \<lparr>disk := instrumented,
         trace := trace (resolved (demo []) (start []) 4) @
           fst (apply_run (demo []) ([Instrumentation ''override''],
           [PatchInstrumentation [''/'', ''res'', ''fix.patch''] [''/'', ''srv'', ''app'', ''index.php'']],
           [CopyInstrumentation [''/'', ''res'', ''stub.php''] [''/'', ''srv'', ''web'', ''stub.php'']],
           [Instrumentation ''annotations'']) [])\<rparr>)"
  by (simp add: Instrumentator_apply_eq load_demo_empty disk_resolved disk_start apply_demo_empty)

lemma webroot_dir_resolved: "webroot_dir (resolved X st m) = webroot_dir st"
  by (simp add: resolved_def)

lemma groups_loaded_cong:
  "disk st = disk st' \<Longrightarrow> webroot_dir st = webroot_dir st' \<Longrightarrow> environ st = environ st'
   \<Longrightarrow> groups_loaded X st m = groups_loaded X st' m"
  by (simp add: groups_loaded_def settings_loaded_def env_loaded_def)

lemma second_load_demo:
  "load_instrumentations (demo []) (snd (Instrumentator_apply (demo []) (start []))) =
     (Inr ([Instrumentation ''override''],
           [PatchInstrumentation [''/'', ''res'', ''fix.patch''] [''/'', ''srv'', ''app'', ''index.php'']],
           [CopyInstrumentation [''/'', ''res'', ''stub.php''] [''/'', ''srv'', ''web'', ''stub.php'']],
           [Instrumentation ''annotations'']),
      resolved (demo []) (snd (Instrumentator_apply (demo []) (start []))) 4)"
  by (simp add: load_demo groups_demo first_apply_demo instrumented_outside)

lemma second_full_demo:
  "\<forall>i \<in> set ([Instrumentation ''override'']
       @ [PatchInstrumentation [''/'', ''res'', ''fix.patch''] [''/'', ''srv'', ''app'', ''index.php'']]
       @ [CopyInstrumentation [''/'', ''res'', ''stub.php''] [''/'', ''srv'', ''web'', ''stub.php'']]
       @ [Instrumentation ''annotations'']).
     op_check (demo []) i (disk (snd (Instrumentator_apply (demo []) (start []))))"
  by (simp add: first_apply_demo demo_checks instrumented_def)

lemma first_printed_demo:
  "printed (trace (snd (Instrumentator_apply (demo []) (start [])))) =
     [''Overrides Applied 1'', ''Patches Applied 1'', ''Copies Applied 1'', ''Annotations Removed 1'']"
  by (simp add: first_apply_demo printed_append printed_resolved trace_start apply_demo_empty)

lemma first_disk_demo:
  "disk (snd (Instrumentator_apply (demo []) (start []))) = instrumented"
  by (simp add: first_apply_demo)

lemma gated_append:
  "gated p (xs @ ys) = (gated p xs \<and> gated (if xs = [] then p else Some (last xs)) ys)"
  by (induction xs arbitrary: p) auto

lemma gated_appendI:
  assumes "gated p xs" and "\<And>q. gated q ys"
  shows "gated p (xs @ ys)"
  using assms by (simp add: gated_append)

lemma gated_apply_group:
  "gated p (apply_group_events X label ops d)"
  by (cases p) (auto simp add: apply_group_events_def allowed_def unapplied_of_def applied_of_def)

lemma gated_revert_group:
  "gated p (revert_group_events X label ops d)"
  by (cases p) (auto simp add: revert_group_events_def allowed_def unapplied_of_def applied_of_def)

lemma gated_apply_run: "gated p (fst (apply_run X g d))"
  by (cases g) (simp add: apply_run_def Let_def gated_append gated_apply_group)

lemma gated_revert_run: "gated p (fst (revert_run X g d))"
  by (cases g) (simp add: revert_run_def Let_def gated_append gated_revert_group)

lemma no_revert_apply_run: "filter is_revert (fst (apply_run X g d)) = []"
  by (cases g) (simp add: apply_run_def Let_def apply_group_events_def)

lemma no_apply_revert_run: "filter is_apply (fst (revert_run X g d)) = []"
  by (cases g) (simp add: revert_run_def Let_def revert_group_events_def)

lemma gated_env_events: "gated p (env_events X st)"
  by (simp add: env_events_def allowed_def)

lemma gated_rglob_events: "gated p (rglob_events vd suf)"
  by (simp add: rglob_events_def allowed_def)

lemma gated_after_loading:
  assumes "\<And>q. gated q es"
  shows "gated p (env_events X st @ rglob_events vd s1 @ rglob_events vd' s2 @ es)"
  by (intro gated_appendI gated_env_events gated_rglob_events assms)

lemma quiet_loading:
  "filter is_apply (env_events X st) = []"
  "filter is_revert (env_events X st) = []"
  "filter is_apply (rglob_events vd s1) = []"
  "filter is_revert (rglob_events vd s1) = []"
  by (simp_all add: env_events_def rglob_events_def)

lemma trace_loaded: "trace (loaded X st) = trace st @ env_events X st"
  by (simp add: loaded_def)

lemma added_apply:
  "added st (snd (Instrumentator_apply X st)) =
     (case load_instrumentations X st of
        (Inl e, st1) \<Rightarrow> env_events X st
      | (Inr g, st1) \<Rightarrow> env_events X st
          @ rglob_events (version_dir (settings_loaded X st) (projr (major_of (cakephp_version (AppInfo X (disk st) (webroot_dir st)))))) ''.patch''
          @ rglob_events (version_dir (settings_loaded X st) (projr (major_of (cakephp_version (AppInfo X (disk st) (webroot_dir st)))))) ''.php''
          @ fst (apply_run X g (disk st)))"
  by (simp add: added_def Instrumentator_apply_eq load_instrumentations_eq trace_loaded
      trace_resolved disk_resolved split: sum.split)

lemma added_revert:
  "added st (snd (Instrumentator_revert X st)) =
     (case load_instrumentations X st of
        (Inl e, st1) \<Rightarrow> env_events X st
      | (Inr g, st1) \<Rightarrow> env_events X st
          @ rglob_events (version_dir (settings_loaded X st) (projr (major_of (cakephp_version (AppInfo X (disk st) (webroot_dir st)))))) ''.patch''
          @ rglob_events (version_dir (settings_loaded X st) (projr (major_of (cakephp_version (AppInfo X (disk st) (webroot_dir st)))))) ''.php''
          @ fst (revert_run X g (disk st)))"
  by (simp add: added_def Instrumentator_revert_eq load_instrumentations_eq trace_loaded
      trace_resolved disk_resolved split: sum.split)











lemma webroot_dir_start: "webroot_dir (start d) = [''/'', ''srv'', ''web'']"
  by (simp add: start_def)

lemma demo_detection:
  "AppInfo (demo ro) d w = demo_info"
  "load_webroot_settings (demo ro) d = \<lparr>instrumentation_ini = [''/'', ''srv'', ''web'', ''fuzz.ini'']\<rparr>"
  by (simp_all add: demo_def)


lemma load_demo_instrumented:
  "load_instrumentations (demo ro) (start instrumented) =
     (Inr ([Instrumentation ''override''],
           [PatchInstrumentation [''/'', ''res'', ''fix.patch''] [''/'', ''srv'', ''app'', ''index.php'']],
           [CopyInstrumentation [''/'', ''res'', ''stub.php''] [''/'', ''srv'', ''web'', ''stub.php'']],
           [Instrumentation ''annotations'']),
      resolved (demo ro) (start instrumented) 4)"
  by (simp add: load_demo groups_demo disk_start instrumented_outside)

lemma revert_demo_readonly:
  "revert_run (demo [[''/'', ''srv'', ''web'', ''stub.php'']])
          ([Instrumentation ''override''],
           [PatchInstrumentation [''/'', ''res'', ''fix.patch''] [''/'', ''srv'', ''app'', ''index.php'']],
           [CopyInstrumentation [''/'', ''res'', ''stub.php''] [''/'', ''srv'', ''web'', ''stub.php'']],
           [Instrumentation ''annotations'']) instrumented =
     ([Check [Instrumentation ''annotations''] [Instrumentation ''annotations''] [],
       Revert [Instrumentation ''annotations''] [Instrumentation ''annotations''],
       Print ''Annotations Reverted 1'',
       Check [Instrumentation ''override''] [Instrumentation ''override''] [],
       Revert [Instrumentation ''override''] [Instrumentation ''override''],
       Print ''Overrides Reverted 1'',
       Check [PatchInstrumentation [''/'', ''res'', ''fix.patch''] [''/'', ''srv'', ''app'', ''index.php'']]
         [PatchInstrumentation [''/'', ''res'', ''fix.patch''] [''/'', ''srv'', ''app'', ''index.php'']] [],
       Revert [PatchInstrumentation [''/'', ''res'', ''fix.patch''] [''/'', ''srv'', ''app'', ''index.php'']]
         [PatchInstrumentation [''/'', ''res'', ''fix.patch''] [''/'', ''srv'', ''app'', ''index.php'']],
       Print ''Patches Reverted 1'',
       Check [CopyInstrumentation [''/'', ''res'', ''stub.php''] [''/'', ''srv'', ''web'', ''stub.php'']]
         [CopyInstrumentation [''/'', ''res'', ''stub.php''] [''/'', ''srv'', ''web'', ''stub.php'']] [],
       Revert [CopyInstrumentation [''/'', ''res'', ''stub.php''] [''/'', ''srv'', ''web'', ''stub.php'']] [],
       Print ''Copies Reverted 1''],
      [[''/'', ''srv'', ''web'', ''stub.php'']])"
  by (simp add: revert_run_def Let_def revert_group_events_def revert_group_disk_def
      unapplied_of_single applied_of_single demo_checks str_nat_1 instrumented_def)

lemma last_str_nat: "last (str_nat n) = digit_char (n mod 10)"
  by (subst str_nat.simps) simp

lemma str_nat_nonempty: "str_nat n \<noteq> []"
  by (subst str_nat.simps) simp

lemma digit_char_cases:
  "d < 10 \<Longrightarrow> digit_char d \<in> set ''0123456789''"
  unfolding digit_char_def by (rule nth_mem) simp

lemma last_str_nat_digit: "last (str_nat n) \<in> set ''0123456789''"
proof -
  have "n mod 10 < 10" by simp
  then show ?thesis
    unfolding last_str_nat by (rule digit_char_cases)
qed

lemma str_int_nonempty: "str_int m \<noteq> []"
  by (simp add: str_int_def str_nat_nonempty)

lemma last_str_int: "last (str_int m) \<in> set ''0123456789''"
  using last_str_nat_digit [of "nat m"] last_str_nat_digit [of "nat (- m)"]
  by (simp add: str_int_def str_nat_nonempty)

lemma segment_str_int: "segment (str_int m) = [str_int m]"
proof -
  have "str_int m \<noteq> ''.''"
    using last_str_int [of m] by auto
  then show ?thesis
    by (simp add: segment_def str_int_nonempty)
qed

lemma str_int_not_root: "str_int m \<noteq> ''/''"
  using last_str_int [of m] by auto

lemma segment_names:
  "segment ''cakephp'' = [''cakephp'']"
  "segment ''APP_DIR'' = [''APP_DIR'']"
  "segment ''CAKEPHP_PATH'' = [''CAKEPHP_PATH'']"
  "segment ''WEBROOT'' = [''WEBROOT'']"
  by (simp_all add: segment_def)

lemma joinpath_single: "x \<noteq> ''/'' \<Longrightarrow> joinpath p [x] = p @ [x]"
  by (simp add: joinpath_def is_absolute_def)

lemma version_dir_eq: "version_dir s m = patch_dir s @ [''cakephp'', str_int m]"
  by (simp add: version_dir_def segment_names segment_str_int joinpath_single str_int_not_root)

lemma root_dirs:
  "joinpath (version_dir s m) (segment ''APP_DIR'') = version_dir s m @ [''APP_DIR'']"
  "joinpath (version_dir s m) (segment ''CAKEPHP_PATH'') = version_dir s m @ [''CAKEPHP_PATH'']"
  "joinpath (version_dir s m) (segment ''WEBROOT'') = version_dir s m @ [''WEBROOT'']"
  by (simp_all add: segment_names joinpath_single)

lemma rglob_source:
  "f \<in> set (rglob es d suf) \<Longrightarrow> f \<in> set es \<and> strictly_below d f \<and> endswith (last f) suf"
  by (simp add: rglob_def strictly_below_def)

lemma strictly_below_append: "strictly_below (d @ [x]) f \<Longrightarrow> strictly_below d f"
  using take_prefix_shorter [of d x f] by (simp add: strictly_below_def)

lemma source_for:
  "source (patch_for d live f) = f"
  "source (copy_for d live f) = f"
  by (simp_all add: patch_for_def copy_for_def)

lemma map_source_found:
  "map source (found patch_for suf es vd a b c) =
     rglob es (joinpath vd (segment ''APP_DIR'')) suf @ rglob es (joinpath vd (segment ''CAKEPHP_PATH'')) suf
     @ rglob es (joinpath vd (segment ''WEBROOT'')) suf"
  "map source (found copy_for suf es vd a b c) =
     rglob es (joinpath vd (segment ''APP_DIR'')) suf @ rglob es (joinpath vd (segment ''CAKEPHP_PATH'')) suf
     @ rglob es (joinpath vd (segment ''WEBROOT'')) suf"
  by (simp_all add: found_def source_for comp_def)

lemma found_sources:
  assumes "i \<in> set (found patch_for suf es (version_dir s m) a b c) \<or> i \<in> set (found copy_for suf es (version_dir s m) a b c)"
  shows "source i \<in> set es \<and> strictly_below (version_dir s m) (source i)"
proof -
  from assms have "source i \<in> set (rglob es (version_dir s m @ [''APP_DIR'']) suf)
      \<or> source i \<in> set (rglob es (version_dir s m @ [''CAKEPHP_PATH'']) suf)
      \<or> source i \<in> set (rglob es (version_dir s m @ [''WEBROOT'']) suf)"
    by (auto simp add: found_def root_dirs source_for)
  then show ?thesis
    using rglob_source strictly_below_append by blast
qed

lemma demo_roots:
  "joinpath [''/'', ''res'', ''cakephp'', ''4''] (segment ''APP_DIR'') = [''/'', ''res'', ''cakephp'', ''4'', ''APP_DIR'']"
  "joinpath [''/'', ''res'', ''cakephp'', ''4''] (segment ''CAKEPHP_PATH'') = [''/'', ''res'', ''cakephp'', ''4'', ''CAKEPHP_PATH'']"
  "joinpath [''/'', ''res'', ''cakephp'', ''4''] (segment ''WEBROOT'') = [''/'', ''res'', ''cakephp'', ''4'', ''WEBROOT'']"
  by (simp_all add: segment_names joinpath_single)

lemma rglob_resources:
  "rglob resources [''/'', ''res'', ''cakephp'', ''4'', ''APP_DIR''] ''.patch'' =
     [[''/'', ''res'', ''cakephp'', ''4'', ''APP_DIR'', ''src'', ''View.php.patch'']]"
  "rglob resources [''/'', ''res'', ''cakephp'', ''4'', ''CAKEPHP_PATH''] ''.patch'' = []"
  "rglob resources [''/'', ''res'', ''cakephp'', ''4'', ''WEBROOT''] ''.patch'' =
     [[''/'', ''res'', ''cakephp'', ''4'', ''WEBROOT'', ''index.php.patch'']]"
  "rglob resources [''/'', ''res'', ''cakephp'', ''4'', ''APP_DIR''] ''.php'' = []"
  "rglob resources [''/'', ''res'', ''cakephp'', ''4'', ''CAKEPHP_PATH''] ''.php'' =
     [[''/'', ''res'', ''cakephp'', ''4'', ''CAKEPHP_PATH'', ''Core.php'']]"
  "rglob resources [''/'', ''res'', ''cakephp'', ''4'', ''WEBROOT''] ''.php'' =
     [[''/'', ''res'', ''cakephp'', ''4'', ''WEBROOT'', ''probe.php'']]"
  by (simp_all add: rglob_def resources_def endswith_def)

lemma stem_demo:
  "stem [''src'', ''View.php.patch''] = ''View.php''"
  "stem [''index.php.patch''] = ''index.php''"
  by (simp_all add: stem_def name_def rfind_def)

lemma patch_for_demo:
  "patch_for [''/'', ''res'', ''cakephp'', ''4'', ''APP_DIR''] [''/'', ''srv'', ''app'']
       [''/'', ''res'', ''cakephp'', ''4'', ''APP_DIR'', ''src'', ''View.php.patch''] =
     PatchInstrumentation [''/'', ''res'', ''cakephp'', ''4'', ''APP_DIR'', ''src'', ''View.php.patch'']
       [''/'', ''srv'', ''app'', ''src'', ''View.php'']"
  "patch_for [''/'', ''res'', ''cakephp'', ''4'', ''WEBROOT''] [''/'', ''srv'', ''web'']
       [''/'', ''res'', ''cakephp'', ''4'', ''WEBROOT'', ''index.php.patch''] =
     PatchInstrumentation [''/'', ''res'', ''cakephp'', ''4'', ''WEBROOT'', ''index.php.patch'']
       [''/'', ''srv'', ''web'', ''index.php'']"
  by (simp_all add: patch_for_def stem_demo parent_def segment_def joinpath_def is_absolute_def)

lemma copy_for_demo:
  "copy_for [''/'', ''res'', ''cakephp'', ''4'', ''CAKEPHP_PATH''] [''/'', ''srv'', ''cake'']
       [''/'', ''res'', ''cakephp'', ''4'', ''CAKEPHP_PATH'', ''Core.php''] =
     CopyInstrumentation [''/'', ''res'', ''cakephp'', ''4'', ''CAKEPHP_PATH'', ''Core.php'']
       [''/'', ''srv'', ''cake'', ''Core.php'']"
  "copy_for [''/'', ''res'', ''cakephp'', ''4'', ''WEBROOT''] [''/'', ''srv'', ''web'']
       [''/'', ''res'', ''cakephp'', ''4'', ''WEBROOT'', ''probe.php''] =
     CopyInstrumentation [''/'', ''res'', ''cakephp'', ''4'', ''WEBROOT'', ''probe.php'']
       [''/'', ''srv'', ''web'', ''probe.php'']"
  by (simp_all add: copy_for_def joinpath_def is_absolute_def)

lemma found_resources:
  "found patch_for ''.patch'' resources [''/'', ''res'', ''cakephp'', ''4'']
       [''/'', ''srv'', ''app''] [''/'', ''srv'', ''cake''] [''/'', ''srv'', ''web''] =
     [PatchInstrumentation [''/'', ''res'', ''cakephp'', ''4'', ''APP_DIR'', ''src'', ''View.php.patch'']
        [''/'', ''srv'', ''app'', ''src'', ''View.php''],
      PatchInstrumentation [''/'', ''res'', ''cakephp'', ''4'', ''WEBROOT'', ''index.php.patch'']
        [''/'', ''srv'', ''web'', ''index.php'']]"
  "found copy_for ''.php'' resources [''/'', ''res'', ''cakephp'', ''4'']
       [''/'', ''srv'', ''app''] [''/'', ''srv'', ''cake''] [''/'', ''srv'', ''web''] =
     [CopyInstrumentation [''/'', ''res'', ''cakephp'', ''4'', ''CAKEPHP_PATH'', ''Core.php'']
        [''/'', ''srv'', ''cake'', ''Core.php''],
      CopyInstrumentation [''/'', ''res'', ''cakephp'', ''4'', ''WEBROOT'', ''probe.php'']
        [''/'', ''srv'', ''web'', ''probe.php'']]"
  by (simp_all add: found_def demo_roots rglob_resources patch_for_demo copy_for_demo)

lemma demo_fields:
  "patch_dir demo_settings = [''/'', ''res'']"
  "patches demo_settings = [PatchInstrumentation [''/'', ''res'', ''fix.patch''] [''/'', ''srv'', ''app'', ''index.php'']]"
  "file_overrides demo_settings = [Instrumentation ''override'']"
  "remove_annotations demo_settings = [Instrumentation ''annotations'']"
  "copies demo_settings = [CopyInstrumentation [''/'', ''res'', ''stub.php''] [''/'', ''srv'', ''web'', ''stub.php'']]"
  "app_dir demo_info = [''/'', ''srv'', ''app'']"
  "cakephp_path demo_info = [''/'', ''srv'', ''cake'']"
  by (simp_all add: demo_settings_def demo_info_def)

lemma groups_demo_resources:
  "groups_loaded (demo ro) (start resources) 4 =
     ([Instrumentation ''override''],
      [PatchInstrumentation [''/'', ''res'', ''fix.patch''] [''/'', ''srv'', ''app'', ''index.php''],
       PatchInstrumentation [''/'', ''res'', ''cakephp'', ''4'', ''APP_DIR'', ''src'', ''View.php.patch'']
         [''/'', ''srv'', ''app'', ''src'', ''View.php''],
       PatchInstrumentation [''/'', ''res'', ''cakephp'', ''4'', ''WEBROOT'', ''index.php.patch'']
         [''/'', ''srv'', ''web'', ''index.php'']],
      [CopyInstrumentation [''/'', ''res'', ''stub.php''] [''/'', ''srv'', ''web'', ''stub.php''],
       CopyInstrumentation [''/'', ''res'', ''cakephp'', ''4'', ''CAKEPHP_PATH'', ''Core.php'']
         [''/'', ''srv'', ''cake'', ''Core.php''],
       CopyInstrumentation [''/'', ''res'', ''cakephp'', ''4'', ''WEBROOT'', ''probe.php'']
         [''/'', ''srv'', ''web'', ''probe.php'']],
      [Instrumentation ''annotations''])"
  by (simp add: groups_loaded_def Let_def settings_loaded_demo demo_detection demo_checks
      disk_start webroot_dir_start version_dir_demo demo_fields found_resources)

lemma settings_loaded_state: "settings (loaded X st) = Some (settings_loaded X st)"
  by (simp add: loaded_def)

lemma loaded_fields:
  "disk (loaded X st) = disk st"
  "webroot_dir (loaded X st) = webroot_dir st"
  by (simp_all add: loaded_def)

lemma resolvers_after_load:
  "load_cake_version_patches X m (loaded X st) =
     (Inr (found patch_for ''.patch'' (entries X (disk st)) (version_dir (settings_loaded X st) m)
            (app_dir (AppInfo X (disk st) (webroot_dir st)))
            (cakephp_path (AppInfo X (disk st) (webroot_dir st)))
            (webroot_dir st)),
      (loaded X st)\<lparr>trace := trace (loaded X st) @ rglob_events (version_dir (settings_loaded X st) m) ''.patch''\<rparr>)"
  "load_cake_version_copies X m
       ((loaded X st)\<lparr>trace := trace (loaded X st) @ rglob_events (version_dir (settings_loaded X st) m) ''.patch''\<rparr>) =
     (Inr (found copy_for ''.php'' (entries X (disk st)) (version_dir (settings_loaded X st) m)
            (app_dir (AppInfo X (disk st) (webroot_dir st)))
            (cakephp_path (AppInfo X (disk st) (webroot_dir st)))
            (webroot_dir st)),
      resolved X st m)"
   apply (simp add: load_cake_version_patches_eq [OF settings_loaded_state] loaded_fields)
  apply (subst load_cake_version_copies_eq [where s = "settings_loaded X st"])
   apply (simp add: loaded_def)
  apply (simp add: loaded_def resolved_def)
  done

lemma load_demo_resources:
  "load_instrumentations (demo ro) (start resources) =
     (Inr ([Instrumentation ''override''],
      [PatchInstrumentation [''/'', ''res'', ''fix.patch''] [''/'', ''srv'', ''app'', ''index.php''],
       PatchInstrumentation [''/'', ''res'', ''cakephp'', ''4'', ''APP_DIR'', ''src'', ''View.php.patch'']
         [''/'', ''srv'', ''app'', ''src'', ''View.php''],
       PatchInstrumentation [''/'', ''res'', ''cakephp'', ''4'', ''WEBROOT'', ''index.php.patch'']
         [''/'', ''srv'', ''web'', ''index.php'']],
      [CopyInstrumentation [''/'', ''res'', ''stub.php''] [''/'', ''srv'', ''web'', ''stub.php''],
       CopyInstrumentation [''/'', ''res'', ''cakephp'', ''4'', ''CAKEPHP_PATH'', ''Core.php'']
         [''/'', ''srv'', ''cake'', ''Core.php''],
       CopyInstrumentation [''/'', ''res'', ''cakephp'', ''4'', ''WEBROOT'', ''probe.php'']
         [''/'', ''srv'', ''web'', ''probe.php'']],
      [Instrumentation ''annotations'']),
      resolved (demo ro) (start resources) 4)"
  by (simp add: load_demo groups_demo_resources)

section \<open>The claims\<close>

subsection \<open>C1: the order of the groups\<close>

text \<open>
  C1, as amended. After a successful load of the groups
  \<open>(overrides, patches, copies, annotation removals)\<close>, \<^verbatim>\<open>apply\<close> processes the
  groups in the order overrides, patches, copies, annotation removals: the calls
  of the batch helpers are, group after group in that order, the \<^verbatim>\<open>check\<close> of the
  group on the disk the groups before have left and the \<^verbatim>\<open>apply\<close> of the part
  reported not applied, and the disk at the end is the one the fourth group
  leaves. \<^verbatim>\<open>revert\<close> processes them in the order annotation removals, overrides,
  patches, copies, the order of \<^verbatim>\<open>apply\<close> with its last group moved to the front:
  the \<^verbatim>\<open>check\<close> of the group and the \<^verbatim>\<open>revert\<close> of the part reported applied.
\<close>

theorem group_order:
  assumes "load_instrumentations X st = (Inr (ov, pa, co, an), st1)"
  shows "(let d0 = disk st;
              d1 = apply_group_disk X ov d0;
              d2 = apply_group_disk X pa d1;
              d3 = apply_group_disk X co d2
          in calls (trace (snd (Instrumentator_apply X st))) = calls (trace st) @
               [Check ov (applied_of X ov d0) (unapplied_of X ov d0),
                Apply (unapplied_of X ov d0) (fst (run_each (op_apply X) (unapplied_of X ov d0) d0)),
                Check pa (applied_of X pa d1) (unapplied_of X pa d1),
                Apply (unapplied_of X pa d1) (fst (run_each (op_apply X) (unapplied_of X pa d1) d1)),
                Check co (applied_of X co d2) (unapplied_of X co d2),
                Apply (unapplied_of X co d2) (fst (run_each (op_apply X) (unapplied_of X co d2) d2)),
                Check an (applied_of X an d3) (unapplied_of X an d3),
                Apply (unapplied_of X an d3) (fst (run_each (op_apply X) (unapplied_of X an d3) d3))]
             \<and> disk (snd (Instrumentator_apply X st)) = apply_group_disk X an d3)
       \<and> (let e0 = disk st;
              e1 = revert_group_disk X an e0;
              e2 = revert_group_disk X ov e1;
              e3 = revert_group_disk X pa e2
          in calls (trace (snd (Instrumentator_revert X st))) = calls (trace st) @
               [Check an (applied_of X an e0) (unapplied_of X an e0),
                Revert (applied_of X an e0) (fst (run_each (op_revert X) (applied_of X an e0) e0)),
                Check ov (applied_of X ov e1) (unapplied_of X ov e1),
                Revert (applied_of X ov e1) (fst (run_each (op_revert X) (applied_of X ov e1) e1)),
                Check pa (applied_of X pa e2) (unapplied_of X pa e2),
                Revert (applied_of X pa e2) (fst (run_each (op_revert X) (applied_of X pa e2) e2)),
                Check co (applied_of X co e3) (unapplied_of X co e3),
                Revert (applied_of X co e3) (fst (run_each (op_revert X) (applied_of X co e3) e3))]
             \<and> disk (snd (Instrumentator_revert X st)) = revert_group_disk X co e3)"
proof -
  from assms obtain m where st1: "st1 = resolved X st m"
    by (rule load_ok_cases)
  have pre: "calls (trace st1) = calls (trace st)" "disk st1 = disk st"
    by (simp_all add: st1 calls_resolved disk_resolved)
  have a: "calls (trace (snd (Instrumentator_apply X st)))
             = calls (trace st) @ calls (fst (apply_run X (ov, pa, co, an) (disk st)))"
    "disk (snd (Instrumentator_apply X st)) = snd (apply_run X (ov, pa, co, an) (disk st))"
    by (simp_all add: Instrumentator_apply_eq assms calls_append pre)
  have r: "calls (trace (snd (Instrumentator_revert X st)))
             = calls (trace st) @ calls (fst (revert_run X (ov, pa, co, an) (disk st)))"
    "disk (snd (Instrumentator_revert X st)) = snd (revert_run X (ov, pa, co, an) (disk st))"
    by (simp_all add: Instrumentator_revert_eq assms calls_append pre)
  show ?thesis
    unfolding a r calls_apply_run calls_revert_run disk_apply_run disk_revert_run
    by (simp add: Let_def)
qed

text \<open>
  On the example installation with the override and the copy applied, \<^verbatim>\<open>apply\<close>
  applies the patch, then the annotation removal, and \<^verbatim>\<open>revert\<close> reverts the
  override, then the copy.
\<close>

theorem group_order_witness:
  "calls (trace (snd (Instrumentator_apply (demo []) (start half_done)))) =
     [Check [Instrumentation ''override''] [Instrumentation ''override''] [],
      Apply [] [],
      Check [PatchInstrumentation [''/'', ''res'', ''fix.patch''] [''/'', ''srv'', ''app'', ''index.php'']] []
        [PatchInstrumentation [''/'', ''res'', ''fix.patch''] [''/'', ''srv'', ''app'', ''index.php'']],
      Apply [PatchInstrumentation [''/'', ''res'', ''fix.patch''] [''/'', ''srv'', ''app'', ''index.php'']]
        [PatchInstrumentation [''/'', ''res'', ''fix.patch''] [''/'', ''srv'', ''app'', ''index.php'']],
      Check [CopyInstrumentation [''/'', ''res'', ''stub.php''] [''/'', ''srv'', ''web'', ''stub.php'']]
        [CopyInstrumentation [''/'', ''res'', ''stub.php''] [''/'', ''srv'', ''web'', ''stub.php'']] [],
      Apply [] [],
      Check [Instrumentation ''annotations''] [] [Instrumentation ''annotations''],
      Apply [Instrumentation ''annotations''] [Instrumentation ''annotations'']]
   \<and> disk (snd (Instrumentator_apply (demo []) (start half_done))) =
     [[''/'', ''srv'', ''marks'', ''annotations''],
      [''/'', ''srv'', ''app'', ''index.php'', ''patched''],
      [''/'', ''srv'', ''marks'', ''override''],
      [''/'', ''srv'', ''web'', ''stub.php'']]
   \<and> calls (trace (snd (Instrumentator_revert (demo []) (start half_done)))) =
     [Check [Instrumentation ''annotations''] [] [Instrumentation ''annotations''],
      Revert [] [],
      Check [Instrumentation ''override''] [Instrumentation ''override''] [],
      Revert [Instrumentation ''override''] [Instrumentation ''override''],
      Check [PatchInstrumentation [''/'', ''res'', ''fix.patch''] [''/'', ''srv'', ''app'', ''index.php'']] []
        [PatchInstrumentation [''/'', ''res'', ''fix.patch''] [''/'', ''srv'', ''app'', ''index.php'']],
      Revert [] [],
      Check [CopyInstrumentation [''/'', ''res'', ''stub.php''] [''/'', ''srv'', ''web'', ''stub.php'']]
        [CopyInstrumentation [''/'', ''res'', ''stub.php''] [''/'', ''srv'', ''web'', ''stub.php'']] [],
      Revert [CopyInstrumentation [''/'', ''res'', ''stub.php''] [''/'', ''srv'', ''web'', ''stub.php'']]
        [CopyInstrumentation [''/'', ''res'', ''stub.php''] [''/'', ''srv'', ''web'', ''stub.php'']]]
   \<and> disk (snd (Instrumentator_revert (demo []) (start half_done))) = []"
  using group_order [OF load_demo_half_done [of "[]"]]
  by (simp add: Let_def disk_start trace_start apply_group_disk_def revert_group_disk_def
      unapplied_of_single applied_of_single demo_checks half_done_def)

text \<open>
  C1 as stated fails: on the example installation the sequence of \<^verbatim>\<open>revert\<close> is
  not the reverse of the sequence of \<^verbatim>\<open>apply\<close>.
\<close>

theorem revert_order_counterexample:
  "checked_groups (trace (snd (Instrumentator_revert (demo []) (start []))))
     \<noteq> rev (checked_groups (trace (snd (Instrumentator_apply (demo []) (start [])))))"
  by (simp add: Instrumentator_apply_eq Instrumentator_revert_eq load_demo_empty
      checked_groups_append checked_groups_resolved checked_groups_apply_run
      checked_groups_revert_run trace_start)

subsection \<open>C2: a second \<^verbatim>\<open>apply\<close>\<close>

text \<open>
  C2. On a fully instrumented tree, that is, when every operation of the four
  groups that \<^verbatim>\<open>apply\<close> loads is reported applied by its check (as it is after a
  first \<^verbatim>\<open>apply\<close> whose operations keep the capability contract), \<^verbatim>\<open>apply\<close>
  returns normally and leaves the disk as it found it, so that every check
  answers as it did after the first call; each group is checked and found
  applied in full, the batch \<^verbatim>\<open>apply\<close> is handed no operation, and the four lines
  printed report zero newly applied operations.
\<close>

theorem apply_idempotent:
  assumes load: "load_instrumentations X st = (Inr (ov, pa, co, an), st1)"
    and full: "\<forall>i \<in> set (ov @ pa @ co @ an). op_check X i (disk st)"
  shows "fst (Instrumentator_apply X st) = Inr ()
       \<and> disk (snd (Instrumentator_apply X st)) = disk st
       \<and> calls (trace (snd (Instrumentator_apply X st)))
           = calls (trace st) @ [Check ov ov [], Apply [] [], Check pa pa [], Apply [] [],
                                 Check co co [], Apply [] [], Check an an [], Apply [] []]
       \<and> printed (trace (snd (Instrumentator_apply X st)))
           = printed (trace st) @ [''Overrides Applied 0'', ''Patches Applied 0'',
                                   ''Copies Applied 0'', ''Annotations Removed 0'']"
proof -
  from load obtain m where st1: "st1 = resolved X st m"
    by (rule load_ok_cases)
  have run: "apply_run X (ov, pa, co, an) (disk st) =
     ([Check ov ov [], Apply [] [], Print ''Overrides Applied 0'',
       Check pa pa [], Apply [] [], Print ''Patches Applied 0'',
       Check co co [], Apply [] [], Print ''Copies Applied 0'',
       Check an an [], Apply [] [], Print ''Annotations Removed 0''], disk st)"
    using full by (rule apply_run_noop)
  show ?thesis
    by (simp add: Instrumentator_apply_eq load st1 disk_resolved run printed_append calls_append
        printed_resolved calls_resolved)
qed

text \<open>
  Two calls on the example installation, starting from an empty disk: the first
  applies one operation in each group, the second applies none and leaves the
  disk of the first.
\<close>

theorem apply_idempotent_witness:
  "fst (Instrumentator_apply (demo []) (snd (Instrumentator_apply (demo []) (start [])))) = Inr ()
   \<and> disk (snd (Instrumentator_apply (demo []) (start []))) = instrumented
   \<and> disk (snd (Instrumentator_apply (demo []) (snd (Instrumentator_apply (demo []) (start []))))) = instrumented
   \<and> printed (trace (snd (Instrumentator_apply (demo []) (snd (Instrumentator_apply (demo []) (start []))))))
     = [''Overrides Applied 1'', ''Patches Applied 1'', ''Copies Applied 1'', ''Annotations Removed 1'',
        ''Overrides Applied 0'', ''Patches Applied 0'', ''Copies Applied 0'', ''Annotations Removed 0'']"
  using apply_idempotent [OF second_load_demo second_full_demo]
  by (simp add: first_printed_demo first_disk_demo)

subsection \<open>C4: mutation is gated by check\<close>

text \<open>
  C4. In the events that \<^verbatim>\<open>apply\<close> and \<^verbatim>\<open>revert\<close> add to the trace, whether the
  load succeeds or raises, every call of a mutating batch helper comes directly
  after the \<^verbatim>\<open>check\<close> of a group and is handed exactly one of the two lists that
  check returned: the batch \<^verbatim>\<open>apply\<close> the list reported not applied, no member
  of which was reported applied, and the batch \<^verbatim>\<open>revert\<close> the list reported
  applied, no member of which was reported not applied. \<^verbatim>\<open>apply\<close> never calls the
  batch \<^verbatim>\<open>revert\<close> and \<^verbatim>\<open>revert\<close> never calls the batch \<^verbatim>\<open>apply\<close>, so the
  operations of the other list are not mutated.
\<close>

theorem mutation_gated:
  "gated None (added st (snd (Instrumentator_apply X st)))
   \<and> filter is_revert (added st (snd (Instrumentator_apply X st))) = []
   \<and> gated None (added st (snd (Instrumentator_revert X st)))
   \<and> filter is_apply (added st (snd (Instrumentator_revert X st))) = []"
proof -
  have a: "gated None (added st (snd (Instrumentator_apply X st)))"
    by (simp add: added_apply gated_env_events gated_after_loading gated_apply_run
        split: prod.split sum.split)
  have b: "filter is_revert (added st (snd (Instrumentator_apply X st))) = []"
    by (simp add: added_apply quiet_loading no_revert_apply_run split: prod.split sum.split)
  have c: "gated None (added st (snd (Instrumentator_revert X st)))"
    by (simp add: added_revert gated_env_events gated_after_loading gated_revert_run
        split: prod.split sum.split)
  have d: "filter is_apply (added st (snd (Instrumentator_revert X st))) = []"
    by (simp add: added_revert quiet_loading no_apply_revert_run split: prod.split sum.split)
  from a b c d show ?thesis
    by (intro conjI)
qed

text \<open>The example installation with the override and the copy applied.\<close>

theorem mutation_gated_witness:
  "gated None (added (start half_done) (snd (Instrumentator_apply (demo []) (start half_done))))
   \<and> filter is_revert (added (start half_done) (snd (Instrumentator_apply (demo []) (start half_done)))) = []
   \<and> gated None (added (start half_done) (snd (Instrumentator_revert (demo []) (start half_done))))
   \<and> filter is_apply (added (start half_done) (snd (Instrumentator_revert (demo []) (start half_done)))) = []"
  using mutation_gated [of "start half_done" "demo []"] by simp

subsection \<open>C10: the environment is set first\<close>



subsection \<open>C9: what \<^verbatim>\<open>revert\<close> counts\<close>

text \<open>
  C9 fails on the code. On the fully instrumented example installation whose
  copy destination cannot be written, \<^verbatim>\<open>revert\<close> hands the copy to the batch
  \<^verbatim>\<open>revert\<close>, which reverts nothing and returns the empty list, and the copy
  stays on the disk; the line printed for the group still reports one reverted
  copy, because the number printed is the length of the list that \<^verbatim>\<open>check\<close>
  reported applied.
\<close>

theorem revert_counts_failed_revert:
  "calls (trace (snd (Instrumentator_revert (demo [[''/'', ''srv'', ''web'', ''stub.php'']]) (start instrumented)))) =
     [Check [Instrumentation ''annotations''] [Instrumentation ''annotations''] [],
      Revert [Instrumentation ''annotations''] [Instrumentation ''annotations''],
      Check [Instrumentation ''override''] [Instrumentation ''override''] [],
      Revert [Instrumentation ''override''] [Instrumentation ''override''],
      Check [PatchInstrumentation [''/'', ''res'', ''fix.patch''] [''/'', ''srv'', ''app'', ''index.php'']]
        [PatchInstrumentation [''/'', ''res'', ''fix.patch''] [''/'', ''srv'', ''app'', ''index.php'']] [],
      Revert [PatchInstrumentation [''/'', ''res'', ''fix.patch''] [''/'', ''srv'', ''app'', ''index.php'']]
        [PatchInstrumentation [''/'', ''res'', ''fix.patch''] [''/'', ''srv'', ''app'', ''index.php'']],
      Check [CopyInstrumentation [''/'', ''res'', ''stub.php''] [''/'', ''srv'', ''web'', ''stub.php'']]
        [CopyInstrumentation [''/'', ''res'', ''stub.php''] [''/'', ''srv'', ''web'', ''stub.php'']] [],
      Revert [CopyInstrumentation [''/'', ''res'', ''stub.php''] [''/'', ''srv'', ''web'', ''stub.php'']] []]
   \<and> printed (trace (snd (Instrumentator_revert (demo [[''/'', ''srv'', ''web'', ''stub.php'']]) (start instrumented)))) =
     [''Annotations Reverted 1'', ''Overrides Reverted 1'', ''Patches Reverted 1'', ''Copies Reverted 1'']
   \<and> disk (snd (Instrumentator_revert (demo [[''/'', ''srv'', ''web'', ''stub.php'']]) (start instrumented))) =
     [[''/'', ''srv'', ''web'', ''stub.php'']]"
  by (simp add: Instrumentator_revert_eq load_demo_instrumented disk_resolved disk_start
      revert_demo_readonly calls_append printed_append calls_resolved printed_resolved trace_start)

subsection \<open>C5: how the four groups are assembled\<close>

text \<open>
  C5. When \<^verbatim>\<open>_load_instrumentations\<close> returns the groups
  \<open>(overrides, patches, copies, annotation removals)\<close>, then with \<open>s\<close> the
  settings that \<^verbatim>\<open>_load_settings\<close> stored, \<open>m\<close> the major version, \<open>dp\<close> what
  \<^verbatim>\<open>_load_cake_version_patches(m)\<close> returned and \<open>dc\<close> what
  \<^verbatim>\<open>_load_cake_version_copies(m)\<close> returned after it: the overrides are the
  declared overrides of \<open>s\<close> and nothing else, the patches are the declared
  patches followed by \<open>dp\<close>, the copies are the declared copies followed by
  \<open>dc\<close>, and the annotation removals are the declared ones and nothing else.
\<close>

theorem groups_assembled:
  assumes "load_instrumentations X st = (Inr (ov, pa, co, an), st1)"
  shows "\<exists>s m dp dc sp.
           settings (snd (load_settings X st)) = Some s
         \<and> major_of (cakephp_version (AppInfo X (disk st) (webroot_dir st))) = Inr m
         \<and> load_cake_version_patches X m (snd (load_settings X st)) = (Inr dp, sp)
         \<and> load_cake_version_copies X m sp = (Inr dc, st1)
         \<and> ov = file_overrides s
         \<and> pa = patches s @ dp
         \<and> co = copies s @ dc
         \<and> an = remove_annotations s"
proof -
  from assms obtain m where m: "major_of (cakephp_version (AppInfo X (disk st) (webroot_dir st))) = Inr m"
    and g: "(ov, pa, co, an) = groups_loaded X st m" and st1: "st1 = resolved X st m"
    by (rule load_ok_cases)
  from g have "ov = file_overrides (settings_loaded X st)"
    and "pa = patches (settings_loaded X st) @ found patch_for ''.patch'' (entries X (disk st))
            (version_dir (settings_loaded X st) m) (app_dir (AppInfo X (disk st) (webroot_dir st)))
            (cakephp_path (AppInfo X (disk st) (webroot_dir st))) (webroot_dir st)"
    and "co = copies (settings_loaded X st) @ found copy_for ''.php'' (entries X (disk st))
            (version_dir (settings_loaded X st) m) (app_dir (AppInfo X (disk st) (webroot_dir st)))
            (cakephp_path (AppInfo X (disk st) (webroot_dir st))) (webroot_dir st)"
    and "an = remove_annotations (settings_loaded X st)"
    by (simp_all add: groups_loaded_def Let_def)
  then show ?thesis
    using m st1
    by (intro exI [of _ "settings_loaded X st"] exI [of _ m]
        exI [of _ "found patch_for ''.patch'' (entries X (disk st))
            (version_dir (settings_loaded X st) m) (app_dir (AppInfo X (disk st) (webroot_dir st)))
            (cakephp_path (AppInfo X (disk st) (webroot_dir st))) (webroot_dir st)"]
        exI [of _ "found copy_for ''.php'' (entries X (disk st))
            (version_dir (settings_loaded X st) m) (app_dir (AppInfo X (disk st) (webroot_dir st)))
            (cakephp_path (AppInfo X (disk st) (webroot_dir st))) (webroot_dir st)"]
        exI [of _ "(loaded X st)\<lparr>trace := trace (loaded X st)
            @ rglob_events (version_dir (settings_loaded X st) m) ''.patch''\<rparr>"])
      (simp add: load_settings_loaded settings_loaded_state resolvers_after_load)
qed

text \<open>
  The example installation with resources for version 4: one declared and two
  discovered patches, one declared and two discovered copies.
\<close>

theorem groups_assembled_witness:
  "\<exists>s m dp dc sp.
       settings (snd (load_settings (demo []) (start resources))) = Some s
     \<and> major_of (cakephp_version (AppInfo (demo []) (disk (start resources)) (webroot_dir (start resources)))) = Inr m
     \<and> load_cake_version_patches (demo []) m (snd (load_settings (demo []) (start resources))) = (Inr dp, sp)
     \<and> load_cake_version_copies (demo []) m sp = (Inr dc, resolved (demo []) (start resources) 4)
     \<and> [Instrumentation ''override''] = file_overrides s
     \<and> [PatchInstrumentation [''/'', ''res'', ''fix.patch''] [''/'', ''srv'', ''app'', ''index.php''],
         PatchInstrumentation [''/'', ''res'', ''cakephp'', ''4'', ''APP_DIR'', ''src'', ''View.php.patch'']
           [''/'', ''srv'', ''app'', ''src'', ''View.php''],
         PatchInstrumentation [''/'', ''res'', ''cakephp'', ''4'', ''WEBROOT'', ''index.php.patch'']
           [''/'', ''srv'', ''web'', ''index.php'']] = patches s @ dp
     \<and> [CopyInstrumentation [''/'', ''res'', ''stub.php''] [''/'', ''srv'', ''web'', ''stub.php''],
         CopyInstrumentation [''/'', ''res'', ''cakephp'', ''4'', ''CAKEPHP_PATH'', ''Core.php'']
           [''/'', ''srv'', ''cake'', ''Core.php''],
         CopyInstrumentation [''/'', ''res'', ''cakephp'', ''4'', ''WEBROOT'', ''probe.php'']
           [''/'', ''srv'', ''web'', ''probe.php'']] = copies s @ dc
     \<and> [Instrumentation ''annotations''] = remove_annotations s"
  by (rule groups_assembled [OF load_demo_resources])

end
